theory Spec2Isabelle
  imports Main "HOL-Library.Word"
begin

unbundle bit_operations_syntax

section \<open>ESP8266IRRecord: the firmware of \<^verbatim>\<open>src/main.cpp\<close>\<close>

text \<open>
  The firmware polls an infrared receiver, dumps every new decode result on the serial
  line and shows a short summary on a 128x64 SSD1306 display. The program text is a
  \<^verbatim>\<open>setup\<close> routine, a \<^verbatim>\<open>loop\<close> routine and the helper \<^verbatim>\<open>displayResults\<close>;
  everything else is a call into the IRremoteESP8266, Adafruit and Arduino libraries.

  The embedding follows the program statement by statement. The globals of the program
  are fields of a state record. The display, the serial line and the receiver are
  devices. What the program does to them is kept in three logs in the state, in the
  order of the calls: the calls on the display with their arguments, the pieces of text
  written to the serial line, and the calls on the receiver. What an external call
  returns (the millisecond clock, the decoder, the text conversions of the IR library)
  is an input of the routine that makes the call.
\<close>

subsection \<open>Constants of the program\<close>

definition SCREEN_WIDTH :: int where "SCREEN_WIDTH = 128"
definition SCREEN_HEIGHT :: int where "SCREEN_HEIGHT = 64"
definition SCREEN_ADDRESS :: int where "SCREEN_ADDRESS = 0x3C"

definition TEXT_SIZE_SMALL :: nat where "TEXT_SIZE_SMALL = 1"
definition TEXT_SIZE_MEDIUM :: nat where "TEXT_SIZE_MEDIUM = 2"

text \<open>\<^verbatim>\<open>unsigned long\<close> is 32 bits wide on the ESP8266.\<close>

type_synonym ulong = "32 word"

definition CLEAR_AFTER_MILLISECONDS :: ulong where "CLEAR_AFTER_MILLISECONDS = 2000"

definition kRecvPin :: "16 word" where "kRecvPin = 14"
definition kBaudRate :: "32 word" where "kBaudRate = 115200"
definition kCaptureBufferSize :: "16 word" where "kCaptureBufferSize = 4096"
definition kTimeout :: "8 word" where "kTimeout = 90"
definition kMinUnknownSize :: "16 word" where "kMinUnknownSize = 12"

subsection \<open>Formatted output\<close>

text \<open>
  The part of C's \<^verbatim>\<open>printf\<close> that the program uses: literal text, \<^verbatim>\<open>%%\<close>, and
  the conversions \<^verbatim>\<open>%s\<close>, \<^verbatim>\<open>%d\<close> and \<^verbatim>\<open>%X\<close> with an optional \<^verbatim>\<open>0\<close> flag
  and a decimal field width. An integer argument occupies one 32-bit slot of the
  variable argument list: \<^verbatim>\<open>%d\<close> reads the slot as a signed value, \<^verbatim>\<open>%X\<close> as an
  unsigned one.
\<close>

definition hexdigit :: "nat \<Rightarrow> char" where
  "hexdigit d = ''0123456789ABCDEF'' ! d"

fun hex_upper :: "nat \<Rightarrow> string" where
  "hex_upper n = (if n < 16 then [hexdigit n] else hex_upper (n div 16) @ [hexdigit (n mod 16)])"

declare hex_upper.simps [simp del]

fun dec_nat :: "nat \<Rightarrow> string" where
  "dec_nat n = (if n < 10 then [hexdigit n] else dec_nat (n div 10) @ [hexdigit (n mod 10)])"

declare dec_nat.simps [simp del]

definition dec_int :: "int \<Rightarrow> string" where
  "dec_int i = (if i < 0 then CHR ''-'' # dec_nat (nat (- i)) else dec_nat (nat i))"

definition pad_left :: "char \<Rightarrow> nat \<Rightarrow> string \<Rightarrow> string" where
  "pad_left c w s = replicate (w - length s) c @ s"

datatype printf_arg = Arg_int "32 word" | Arg_str string

definition is_digit :: "char \<Rightarrow> bool" where
  "is_digit c = (c \<in> set ''0123456789'')"

definition digit_val :: "char \<Rightarrow> nat" where
  "digit_val c = of_char c - of_char (CHR ''0'')"

fun convert :: "bool \<Rightarrow> nat \<Rightarrow> char \<Rightarrow> printf_arg \<Rightarrow> string" where
  "convert z w c (Arg_int v) =
     (if c = CHR ''X'' then pad_left (if z then CHR ''0'' else CHR '' '') w (hex_upper (unat v))
      else if c = CHR ''d'' then
        (if z \<and> sint v < 0
         then CHR ''-'' # pad_left (CHR ''0'') (w - 1) (dec_nat (nat (- sint v)))
         else pad_left (if z then CHR ''0'' else CHR '' '') w (dec_int (sint v)))
      else [])"
| "convert z w c (Arg_str t) =
     (if c = CHR ''s'' then pad_left (CHR '' '') w t else [])"

text \<open>
  The scanner is in one of two modes: copying literal text, or inside a conversion
  specification of which the zero flag and the width read so far are known.
\<close>

datatype printf_mode = Literal | Spec bool nat

fun printf_scan :: "printf_mode \<Rightarrow> string \<Rightarrow> printf_arg list \<Rightarrow> string" where
  "printf_scan m [] args = []"
| "printf_scan Literal (c # cs) args =
     (if c = CHR ''%'' then printf_scan (Spec False 0) cs args
      else c # printf_scan Literal cs args)"
| "printf_scan (Spec z w) (c # cs) args =
     (if c = CHR ''%'' then c # printf_scan Literal cs args
      else if c = CHR ''0'' \<and> w = 0 \<and> \<not> z then printf_scan (Spec True 0) cs args
      else if is_digit c then printf_scan (Spec z (10 * w + digit_val c)) cs args
      else (case args of
              [] \<Rightarrow> printf_scan Literal cs []
            | a # rest \<Rightarrow> convert z w c a @ printf_scan Literal cs rest))"

definition printf :: "string \<Rightarrow> printf_arg list \<Rightarrow> string" where
  "printf fmt args = printf_scan Literal fmt args"

subsection \<open>What the libraries declare\<close>

text \<open>
  The macros and constants below are declared by the IRremoteESP8266 library, not by
  the program: the default tolerance, the switch that enables the hash decoder, and
  the texts of its locale (each a \<^verbatim>\<open>printf\<close> format or a plain string). They are
  parameters of the model.
\<close>

record irlib =
  kTolerance :: "8 word"
  DECODE_HASH :: bool
  D_STR_IRRECVDUMP_STARTUP :: string
  D_WARN_BUFFERFULL :: string
  D_STR_TOLERANCE :: string
  D_STR_MESGDESC :: string

definition kTolerancePercentage :: "irlib \<Rightarrow> 8 word" where
  "kTolerancePercentage lib = kTolerance lib"

text \<open>
  The decode result of the IR library. The library declares \<^verbatim>\<open>value\<close> as
  \<^verbatim>\<open>uint64_t\<close> and \<^verbatim>\<open>address\<close> and \<^verbatim>\<open>command\<close> as \<^verbatim>\<open>uint32_t\<close>; the field
  \<^verbatim>\<open>value\<close> is called \<open>value64\<close> here.
\<close>

record decode_results =
  decode_type :: int
  value64 :: "64 word"
  address :: "32 word"
  command :: "32 word"
  bits :: "16 word"
  rawbuf :: "16 word list"
  rawlen :: "16 word"
  overflow :: bool
  repeat :: bool

subsection \<open>The devices\<close>

datatype color = SSD1306_BLACK | SSD1306_WHITE

text \<open>
  The calls on the \<^verbatim>\<open>display\<close> object. \<open>Begin\<close> carries the bus address
  given to \<^verbatim>\<open>display.begin\<close>, \<open>Write\<close> is text output
  (\<^verbatim>\<open>printf\<close>, \<^verbatim>\<open>println\<close>) and \<open>Display\<close> is \<^verbatim>\<open>display.display()\<close>, which
  sends the frame buffer to the panel.
\<close>

datatype display_call =
    Begin int
  | FillScreen color
  | SetCursor int int
  | SetTextSize nat
  | SetTextColor color
  | Write string
  | FillRect int int int int color
  | Display

datatype irrecv_call =
    SetUnknownThreshold "16 word"
  | SetTolerance "8 word"
  | EnableIRIn
  | Decode

subsection \<open>The state\<close>

record firmware_state =
  g_previousDisplayMillis :: ulong
  g_currentMillis :: ulong
  g_DecodeResults :: decode_results
  display_log :: "display_call list"
  serial_log :: "string list"
  irrecv_log :: "irrecv_call list"

definition crlf :: string where
  "crlf = [CHR 0x0D, CHR 0x0A]"

definition Serial_print :: "string \<Rightarrow> 'a firmware_state_scheme \<Rightarrow> 'a firmware_state_scheme" where
  "Serial_print t s = s\<lparr>serial_log := serial_log s @ [t]\<rparr>"

definition Serial_println :: "string \<Rightarrow> 'a firmware_state_scheme \<Rightarrow> 'a firmware_state_scheme" where
  "Serial_println t s = Serial_print (t @ crlf) s"

definition Serial_printf ::
  "string \<Rightarrow> printf_arg list \<Rightarrow> 'a firmware_state_scheme \<Rightarrow> 'a firmware_state_scheme" where
  "Serial_printf fmt args s = Serial_print (printf fmt args) s"

definition display_do :: "display_call \<Rightarrow> 'a firmware_state_scheme \<Rightarrow> 'a firmware_state_scheme" where
  "display_do c s = s\<lparr>display_log := display_log s @ [c]\<rparr>"

definition display_printf ::
  "string \<Rightarrow> printf_arg list \<Rightarrow> 'a firmware_state_scheme \<Rightarrow> 'a firmware_state_scheme" where
  "display_printf fmt args s = display_do (Write (printf fmt args)) s"

definition display_println :: "string \<Rightarrow> 'a firmware_state_scheme \<Rightarrow> 'a firmware_state_scheme" where
  "display_println t s = display_do (Write (t @ crlf)) s"

definition irrecv_do :: "irrecv_call \<Rightarrow> 'a firmware_state_scheme \<Rightarrow> 'a firmware_state_scheme" where
  "irrecv_do c s = s\<lparr>irrecv_log := irrecv_log s @ [c]\<rparr>"

subsection \<open>One pass of \<^verbatim>\<open>loop\<close>\<close>

text \<open>
  What the external calls of one pass return: the clock at the top of \<^verbatim>\<open>loop\<close>,
  the result of \<^verbatim>\<open>irrecv.decode\<close> and what it leaves in \<^verbatim>\<open>g_DecodeResults\<close>,
  the strings of the five text conversions, and the clock at the end of
  \<^verbatim>\<open>displayResults\<close>.
\<close>

record loop_input =
  millis_loop :: ulong
  decode_returned :: bool
  decode_stored :: decode_results
  typeToString :: string
  resultToHexidecimal :: string
  resultToHumanReadableBasic :: string
  resultAcToString :: string
  resultToSourceCode :: string
  millis_display :: ulong

text \<open>
  \<^verbatim>\<open>displayResults\<close> takes the decode result by value and does not use it: it reads
  the global \<^verbatim>\<open>g_DecodeResults\<close>.
\<close>

definition displayResults ::
  "decode_results \<Rightarrow> loop_input \<Rightarrow> 'a firmware_state_scheme \<Rightarrow> 'a firmware_state_scheme" where
  "displayResults ir_results inp s0 =
    (let s = (if CLEAR_AFTER_MILLISECONDS < g_currentMillis s0 - g_previousDisplayMillis s0
              then display_do (SetCursor 0 0) (display_do (FillScreen SSD1306_BLACK) s0)
              else s0);
         s = display_do (SetTextSize TEXT_SIZE_SMALL) s;
         s = display_do (SetTextColor SSD1306_WHITE) s;
         s = display_printf ''Protocol: %s\<newline>'' [Arg_str (typeToString inp)] s;
         s = display_printf ''Code    : %s\<newline>'' [Arg_str (resultToHexidecimal inp)] s;
         s = (if 0 < address (g_DecodeResults s)
              then display_printf ''Address : 0x%02X%02X (%d)\<newline>''
                     [Arg_int (address (g_DecodeResults s)),
                      Arg_int (0xFF - address (g_DecodeResults s)),
                      Arg_int (address (g_DecodeResults s))] s
              else s);
         s = (if 0 < command (g_DecodeResults s)
              then display_printf ''Command : 0x%02X%02X (%d)\<newline>''
                     [Arg_int (command (g_DecodeResults s)),
                      Arg_int (0xFF - command (g_DecodeResults s)),
                      Arg_int (command (g_DecodeResults s))] s
              else s);
         s = display_do Display s
     in s\<lparr>g_previousDisplayMillis := millis_display inp\<rparr>)"

definition loop :: "irlib \<Rightarrow> loop_input \<Rightarrow> 'a firmware_state_scheme \<Rightarrow> 'a firmware_state_scheme" where
  "loop lib inp s0 =
    (let s = s0\<lparr>g_currentMillis := millis_loop inp\<rparr>;
         s = irrecv_do Decode (s\<lparr>g_DecodeResults := decode_stored inp\<rparr>)
     in if decode_returned inp \<and> \<not> repeat (g_DecodeResults s) then
          (let s = Serial_println ''[====== ESP8266IRRecord - BEGIN ======]'' s;
               s = (if overflow (g_DecodeResults s)
                    then Serial_printf (D_WARN_BUFFERFULL lib @ ''\<newline>'')
                           [Arg_int (ucast kCaptureBufferSize)] s
                    else s);
               s = (if kTolerancePercentage lib \<noteq> kTolerance lib
                    then Serial_printf (D_STR_TOLERANCE lib @ '' : %d%%\<newline>'')
                           [Arg_int (ucast (kTolerancePercentage lib))] s
                    else s);
               s = Serial_println ''[resultToHumanReadableBasic]:'' s;
               s = Serial_print (resultToHumanReadableBasic inp) s;
               s = (if resultAcToString inp \<noteq> []
                    then Serial_println (D_STR_MESGDESC lib @ '': '' @ resultAcToString inp)
                           (Serial_println ''[resultsAcToString]:'' s)
                    else s);
               s = Serial_println ''[resultsToSourceCode]:'' s;
               s = Serial_println (resultToSourceCode inp) s;
               s = (if address (g_DecodeResults s) \<noteq> 0
                    then Serial_printf ''Address: 0x%02X%02X (%d)\<newline>''
                           [Arg_int (address (g_DecodeResults s)),
                            Arg_int (0xFF - address (g_DecodeResults s)),
                            Arg_int (address (g_DecodeResults s))] s
                    else s);
               s = (if command (g_DecodeResults s) \<noteq> 0
                    then Serial_printf ''Command: 0x%02X%02X (%d)\<newline>''
                           [Arg_int (command (g_DecodeResults s)),
                            Arg_int (0xFF - command (g_DecodeResults s)),
                            Arg_int (command (g_DecodeResults s))] s
                    else s);
               s = (if value64 (g_DecodeResults s) \<noteq> 0
                    then Serial_printf ''Value  : 0x%08X%08X\<newline>''
                           [Arg_int (ucast (drop_bit 32 (value64 (g_DecodeResults s)) AND 0xFFFFFFFF)),
                            Arg_int (ucast (value64 (g_DecodeResults s) AND 0xFFFFFFFF))] s
                    else s);
               s = displayResults (g_DecodeResults s) inp s
           in Serial_println ''[====== ESP8266IRRecord - END ======]'' s)
        else if CLEAR_AFTER_MILLISECONDS < g_currentMillis s - g_previousDisplayMillis s then
          display_do Display
            (display_do (FillRect (SCREEN_WIDTH - 2) (SCREEN_HEIGHT - 2) 2 2 SSD1306_WHITE) s)
        else s)"

text \<open>What one pass adds to the display and to the serial line.\<close>

definition display_drawn :: "irlib \<Rightarrow> loop_input \<Rightarrow> 'a firmware_state_scheme \<Rightarrow> display_call list" where
  "display_drawn lib inp s = drop (length (display_log s)) (display_log (loop lib inp s))"

definition serial_written :: "irlib \<Rightarrow> loop_input \<Rightarrow> 'a firmware_state_scheme \<Rightarrow> string list" where
  "serial_written lib inp s = drop (length (serial_log s)) (serial_log (loop lib inp s))"

subsection \<open>\<^verbatim>\<open>setup\<close> and the whole program\<close>

text \<open>
  \<^verbatim>\<open>for(;;);\<close> is a loop without exit. As a partial function its value is \<open>None\<close>
  when it does not return.
\<close>

partial_function (option) spin_forever :: "'s \<Rightarrow> 's option" where
  "spin_forever s = spin_forever s"

text \<open>
  \<^verbatim>\<open>while (!Serial) delay(50);\<close> tests the serial port until it is ready. The
  argument \<open>ready k\<close> is what the \<open>k\<close>-th test of \<^verbatim>\<open>Serial\<close> gives; the result is
  the number of delays made, and \<open>None\<close> when the port never becomes ready.
  \<^verbatim>\<open>Serial.begin\<close> writes no text and \<^verbatim>\<open>delay\<close> only lets time pass: neither
  changes the state.
\<close>

partial_function (option) wait_for_serial :: "(nat \<Rightarrow> bool) \<Rightarrow> nat \<Rightarrow> nat option" where
  "wait_for_serial ready k = (if ready k then Some k else wait_for_serial ready (Suc k))"

record setup_input =
  Serial_ready :: "nat \<Rightarrow> bool"
  lowLevelSanityCheck :: "8 word"
  display_begin :: bool

text \<open>
  The routine \<^verbatim>\<open>setup\<close> of the program is \<open>setup_routine\<close> here.
  A routine returns, or it never returns (\<open>Hung\<close>, with the state it is stuck in), or
  a failed \<^verbatim>\<open>assert\<close> aborts it.
\<close>

datatype 's outcome = Returned 's | Hung 's | Aborted 's

definition setup_routine :: "irlib \<Rightarrow> setup_input \<Rightarrow> 'a firmware_state_scheme \<Rightarrow> 'a firmware_state_scheme outcome" where
  "setup_routine lib inp s0 =
    (case wait_for_serial (Serial_ready inp) 0 of
       None \<Rightarrow> Hung s0
     | Some n \<Rightarrow>
        if lowLevelSanityCheck inp \<noteq> 0 then Aborted s0
        else
          (let s = Serial_printf (''\<newline>'' @ D_STR_IRRECVDUMP_STARTUP lib @ ''\<newline>'')
                     [Arg_int (ucast kRecvPin)] s0;
               s = (if DECODE_HASH lib then irrecv_do (SetUnknownThreshold kMinUnknownSize) s else s);
               s = irrecv_do (SetTolerance (kTolerancePercentage lib)) s;
               s = irrecv_do EnableIRIn s;
               s = display_do (Begin SCREEN_ADDRESS) s;
               r = (if \<not> display_begin inp
                    then (let s = Serial_println ''SSD1306 allocation FAILED'' s
                          in case spin_forever s of None \<Rightarrow> Inl s | Some s' \<Rightarrow> Inr s')
                    else Inr (Serial_println ''SSD1306 allocation SUCCEEDED'' s))
           in case r of
                Inl s \<Rightarrow> Hung s
              | Inr s \<Rightarrow>
                 (let s = display_do (FillScreen SSD1306_BLACK) s;
                      s = display_do (SetTextSize TEXT_SIZE_MEDIUM) s;
                      s = display_do (SetTextColor SSD1306_WHITE) s;
                      s = display_do (SetCursor 0 0) s;
                      s = display_println ''Waiting\<newline>for\<newline>IR Code...'' s;
                      s = display_do Display s
                  in Returned s)))"

text \<open>
  The Arduino core calls \<^verbatim>\<open>setup\<close> once and then \<^verbatim>\<open>loop\<close> again and again. The
  passes of \<^verbatim>\<open>loop\<close> made so far are given by the list of their inputs.
\<close>

definition firmware ::
  "irlib \<Rightarrow> setup_input \<Rightarrow> loop_input list \<Rightarrow> 'a firmware_state_scheme \<Rightarrow> 'a firmware_state_scheme outcome" where
  "firmware lib sinp inps s0 =
    (case setup_routine lib sinp s0 of
       Returned s \<Rightarrow> Returned (fold (loop lib) inps s)
     | Hung s \<Rightarrow> Hung s
     | Aborted s \<Rightarrow> Aborted s)"

subsection \<open>Reference notation for the printed numbers\<close>

text \<open>
  The notation the specification uses for printed numbers, defined without reference to
  \<^verbatim>\<open>printf\<close>: \<open>hex_fixed k n\<close> is \<open>n\<close> written with exactly \<open>k\<close> upper-case
  hexadecimal digits, most significant first, and \<open>hex_value\<close> reads such a string
  back. \<open>pair_format v\<close> is the specification's
  \<^verbatim>\<open>0x{V:02X}{(0xFF-V):02X} (V)\<close>.
\<close>

fun hex_fixed :: "nat \<Rightarrow> nat \<Rightarrow> string" where
  "hex_fixed 0 n = []"
| "hex_fixed (Suc k) n = hex_fixed k (n div 16) @ [hexdigit (n mod 16)]"

definition hexdigit_value :: "char \<Rightarrow> nat" where
  "hexdigit_value c = (if is_digit c then of_char c - 48 else of_char c - 55)"

definition hex_value :: "string \<Rightarrow> nat" where
  "hex_value cs = foldl (\<lambda>acc c. 16 * acc + hexdigit_value c) 0 cs"

definition pair_format :: "nat \<Rightarrow> string" where
  "pair_format v = ''0x'' @ hex_fixed 2 v @ hex_fixed 2 (0xFF - v) @ '' ('' @ dec_nat v @ '')''"

subsection \<open>Sample inputs\<close>

text \<open>
  Concrete inputs on which the theorems below are instantiated: sample texts for the
  library's locale, the state after reset (all globals zero, nothing logged), a pass in
  which an NEC code with address 4 and command 2 is decoded, a pass without a new code,
  and a pass in which the decoder reports an NEC repeat code.
\<close>

definition sample_lib :: irlib where
  "sample_lib =
     \<lparr>kTolerance = 25, DECODE_HASH = True,
      D_STR_IRRECVDUMP_STARTUP = ''IRrecvDump is now running and waiting for IR input on Pin %d'',
      D_WARN_BUFFERFULL = ''WARNING: IR code is too big for buffer (>= %d).'',
      D_STR_TOLERANCE = ''Tolerance'',
      D_STR_MESGDESC = ''Mesg Desc.''\<rparr>"

definition zero_results :: decode_results where
  "zero_results =
     \<lparr>decode_type = 0, value64 = 0, address = 0, command = 0, bits = 0, rawbuf = [], rawlen = 0,
      overflow = False, repeat = False\<rparr>"

definition reset_state :: firmware_state where
  "reset_state =
     \<lparr>g_previousDisplayMillis = 0, g_currentMillis = 0, g_DecodeResults = zero_results,
      display_log = [], serial_log = [], irrecv_log = []\<rparr>"

definition nec_results :: decode_results where
  "nec_results =
     \<lparr>decode_type = 3, value64 = 0x20DF40BF, address = 4, command = 2, bits = 32, rawbuf = [],
      rawlen = 0, overflow = False, repeat = False\<rparr>"

definition nec_pass :: loop_input where
  "nec_pass =
     \<lparr>millis_loop = 5000, decode_returned = True, decode_stored = nec_results,
      typeToString = ''NEC'', resultToHexidecimal = ''0x20DF40BF'',
      resultToHumanReadableBasic = ''Code: 0x20DF40BF'', resultAcToString = [],
      resultToSourceCode = ''uint64_t data = 0x20DF40BF;'', millis_display = 5030\<rparr>"

definition idle_pass :: loop_input where
  "idle_pass = nec_pass\<lparr>decode_returned := False\<rparr>"

definition repeat_pass :: loop_input where
  "repeat_pass =
     nec_pass\<lparr>decode_stored :=
       nec_results\<lparr>value64 := 0xFFFFFFFFFFFFFFFF, address := 0, command := 0, repeat := True\<rparr>\<rparr>"

definition ready_setup :: setup_input where
  "ready_setup = \<lparr>Serial_ready = (\<lambda>k. True), lowLevelSanityCheck = 0, display_begin = False\<rparr>"

section \<open>Properties\<close>

subsection \<open>The loops of \<^verbatim>\<open>setup\<close>\<close>

lemma spin_forever_Some: "spin_forever s = Some t \<Longrightarrow> False"
  by (rule spin_forever.raw_induct [where P = "\<lambda>_ _. False"])

lemma spin_forever_None: "spin_forever s = None"
  using spin_forever_Some [of s] by (cases "spin_forever s") auto

subsection \<open>The effect of one pass\<close>

text \<open>
  A statement guarded by \<^verbatim>\<open>if\<close> that only writes to a device appends to the log of
  that device, or appends nothing.
\<close>

lemma if_Serial_printf:
  "(if c then Serial_printf fmt args s else s) =
   s\<lparr>serial_log := serial_log s @ (if c then [printf fmt args] else [])\<rparr>"
  by (simp add: Serial_printf_def Serial_print_def)

lemma if_Serial_println2:
  "(if c then Serial_println a (Serial_println b s) else s) =
   s\<lparr>serial_log := serial_log s @ (if c then [b @ crlf, a @ crlf] else [])\<rparr>"
  by (simp add: Serial_println_def Serial_print_def)

lemma if_display_printf:
  "(if c then display_printf fmt args s else s) =
   s\<lparr>display_log := display_log s @ (if c then [Write (printf fmt args)] else [])\<rparr>"
  by (simp add: display_printf_def display_do_def)

lemma if_display_do2:
  "(if c then display_do a (display_do b s) else s) =
   s\<lparr>display_log := display_log s @ (if c then [b, a] else [])\<rparr>"
  by (simp add: display_do_def)

lemmas stmt_defs = Serial_print_def Serial_println_def Serial_printf_def display_do_def
  display_printf_def display_println_def irrecv_do_def

lemmas if_stmts = if_Serial_printf if_Serial_println2 if_display_printf if_display_do2

lemma displayResults_eq:
  "displayResults r inp s =
   s\<lparr>display_log := display_log s @
     (if 2000 < g_currentMillis s - g_previousDisplayMillis s
      then [FillScreen SSD1306_BLACK, SetCursor 0 0] else []) @
     [SetTextSize 1, SetTextColor SSD1306_WHITE,
      Write (printf ''Protocol: %s\<newline>'' [Arg_str (typeToString inp)]),
      Write (printf ''Code    : %s\<newline>'' [Arg_str (resultToHexidecimal inp)])] @
     (if 0 < address (g_DecodeResults s)
      then [Write (printf ''Address : 0x%02X%02X (%d)\<newline>''
              [Arg_int (address (g_DecodeResults s)), Arg_int (0xFF - address (g_DecodeResults s)),
               Arg_int (address (g_DecodeResults s))])]
      else []) @
     (if 0 < command (g_DecodeResults s)
      then [Write (printf ''Command : 0x%02X%02X (%d)\<newline>''
              [Arg_int (command (g_DecodeResults s)), Arg_int (0xFF - command (g_DecodeResults s)),
               Arg_int (command (g_DecodeResults s))])]
      else []) @
     [Display],
     g_previousDisplayMillis := millis_display inp\<rparr>"
  apply (simp only: displayResults_def)
  apply (simp only: if_stmts cong: if_cong)
  apply (simp add: Let_def stmt_defs CLEAR_AFTER_MILLISECONDS_def TEXT_SIZE_SMALL_def cong: if_cong)
  done

lemma loop_not_decoded:
  "\<not> decode_returned inp \<Longrightarrow>
   loop lib inp s =
     s\<lparr>g_currentMillis := millis_loop inp, g_DecodeResults := decode_stored inp,
       irrecv_log := irrecv_log s @ [Decode],
       display_log := display_log s @
         (if 2000 < millis_loop inp - g_previousDisplayMillis s
          then [FillRect 126 62 2 2 SSD1306_WHITE, Display] else [])\<rparr>"
  by (simp add: loop_def Let_def irrecv_do_def display_do_def CLEAR_AFTER_MILLISECONDS_def
      SCREEN_WIDTH_def SCREEN_HEIGHT_def)

lemma loop_repeat:
  "repeat (decode_stored inp) \<Longrightarrow>
   loop lib inp s =
     s\<lparr>g_currentMillis := millis_loop inp, g_DecodeResults := decode_stored inp,
       irrecv_log := irrecv_log s @ [Decode],
       display_log := display_log s @
         (if 2000 < millis_loop inp - g_previousDisplayMillis s
          then [FillRect 126 62 2 2 SSD1306_WHITE, Display] else [])\<rparr>"
  by (simp add: loop_def Let_def irrecv_do_def display_do_def CLEAR_AFTER_MILLISECONDS_def
      SCREEN_WIDTH_def SCREEN_HEIGHT_def)

lemma loop_idle:
  "\<not> (decode_returned inp \<and> \<not> repeat (decode_stored inp)) \<Longrightarrow>
   loop lib inp s =
     s\<lparr>g_currentMillis := millis_loop inp, g_DecodeResults := decode_stored inp,
       irrecv_log := irrecv_log s @ [Decode],
       display_log := display_log s @
         (if 2000 < millis_loop inp - g_previousDisplayMillis s
          then [FillRect 126 62 2 2 SSD1306_WHITE, Display] else [])\<rparr>"
  using loop_not_decoded [of inp lib s] loop_repeat [of inp lib s] by blast

lemma loop_handled:
  "decode_returned inp \<Longrightarrow> \<not> repeat (decode_stored inp) \<Longrightarrow>
   loop lib inp s =
   s\<lparr>g_currentMillis := millis_loop inp,
     g_DecodeResults := decode_stored inp,
     irrecv_log := irrecv_log s @ [Decode],
     serial_log := serial_log s @
       [''[====== ESP8266IRRecord - BEGIN ======]'' @ crlf] @
       (if overflow (decode_stored inp)
        then [printf (D_WARN_BUFFERFULL lib @ ''\<newline>'') [Arg_int 4096]] else []) @
       [''[resultToHumanReadableBasic]:'' @ crlf, resultToHumanReadableBasic inp] @
       (if resultAcToString inp \<noteq> []
        then [''[resultsAcToString]:'' @ crlf,
              (D_STR_MESGDESC lib @ '': '' @ resultAcToString inp) @ crlf]
        else []) @
       [''[resultsToSourceCode]:'' @ crlf, resultToSourceCode inp @ crlf] @
       (if address (decode_stored inp) \<noteq> 0
        then [printf ''Address: 0x%02X%02X (%d)\<newline>''
                [Arg_int (address (decode_stored inp)), Arg_int (0xFF - address (decode_stored inp)),
                 Arg_int (address (decode_stored inp))]]
        else []) @
       (if command (decode_stored inp) \<noteq> 0
        then [printf ''Command: 0x%02X%02X (%d)\<newline>''
                [Arg_int (command (decode_stored inp)), Arg_int (0xFF - command (decode_stored inp)),
                 Arg_int (command (decode_stored inp))]]
        else []) @
       (if value64 (decode_stored inp) \<noteq> 0
        then [printf ''Value  : 0x%08X%08X\<newline>''
                [Arg_int (ucast (drop_bit 32 (value64 (decode_stored inp)) AND 0xFFFFFFFF)),
                 Arg_int (ucast (value64 (decode_stored inp) AND 0xFFFFFFFF))]]
        else []) @
       [''[====== ESP8266IRRecord - END ======]'' @ crlf],
     display_log := display_log s @
       (if 2000 < millis_loop inp - g_previousDisplayMillis s
        then [FillScreen SSD1306_BLACK, SetCursor 0 0] else []) @
       [SetTextSize 1, SetTextColor SSD1306_WHITE,
        Write (printf ''Protocol: %s\<newline>'' [Arg_str (typeToString inp)]),
        Write (printf ''Code    : %s\<newline>'' [Arg_str (resultToHexidecimal inp)])] @
       (if 0 < address (decode_stored inp)
        then [Write (printf ''Address : 0x%02X%02X (%d)\<newline>''
                [Arg_int (address (decode_stored inp)), Arg_int (0xFF - address (decode_stored inp)),
                 Arg_int (address (decode_stored inp))])]
        else []) @
       (if 0 < command (decode_stored inp)
        then [Write (printf ''Command : 0x%02X%02X (%d)\<newline>''
                [Arg_int (command (decode_stored inp)), Arg_int (0xFF - command (decode_stored inp)),
                 Arg_int (command (decode_stored inp))])]
        else []) @
       [Display],
     g_previousDisplayMillis := millis_display inp\<rparr>"
  apply (simp only: loop_def)
  apply (simp only: if_stmts cong: if_cong)
  apply (simp add: Let_def stmt_defs displayResults_eq kTolerancePercentage_def
      kCaptureBufferSize_def cong: if_cong)
  done

text \<open>What one pass adds to the two logs.\<close>

lemma display_drawn_idle:
  "\<not> (decode_returned inp \<and> \<not> repeat (decode_stored inp)) \<Longrightarrow>
   display_drawn lib inp s =
     (if 2000 < millis_loop inp - g_previousDisplayMillis s
      then [FillRect 126 62 2 2 SSD1306_WHITE, Display] else [])"
  unfolding display_drawn_def by (subst loop_idle, assumption) simp

lemma serial_written_idle:
  "\<not> (decode_returned inp \<and> \<not> repeat (decode_stored inp)) \<Longrightarrow> serial_written lib inp s = []"
  unfolding serial_written_def by (subst loop_idle, assumption) simp

lemma display_drawn_handled:
  "decode_returned inp \<Longrightarrow> \<not> repeat (decode_stored inp) \<Longrightarrow>
   display_drawn lib inp s =
     (if 2000 < millis_loop inp - g_previousDisplayMillis s
      then [FillScreen SSD1306_BLACK, SetCursor 0 0] else []) @
     [SetTextSize 1, SetTextColor SSD1306_WHITE,
      Write (printf ''Protocol: %s\<newline>'' [Arg_str (typeToString inp)]),
      Write (printf ''Code    : %s\<newline>'' [Arg_str (resultToHexidecimal inp)])] @
     (if 0 < address (decode_stored inp)
      then [Write (printf ''Address : 0x%02X%02X (%d)\<newline>''
              [Arg_int (address (decode_stored inp)), Arg_int (0xFF - address (decode_stored inp)),
               Arg_int (address (decode_stored inp))])]
      else []) @
     (if 0 < command (decode_stored inp)
      then [Write (printf ''Command : 0x%02X%02X (%d)\<newline>''
              [Arg_int (command (decode_stored inp)), Arg_int (0xFF - command (decode_stored inp)),
               Arg_int (command (decode_stored inp))])]
      else []) @
     [Display]"
  unfolding display_drawn_def by (subst loop_handled, assumption, assumption) (simp cong: if_cong)

lemma serial_written_handled:
  "decode_returned inp \<Longrightarrow> \<not> repeat (decode_stored inp) \<Longrightarrow>
   serial_written lib inp s =
     [''[====== ESP8266IRRecord - BEGIN ======]'' @ crlf] @
     (if overflow (decode_stored inp)
      then [printf (D_WARN_BUFFERFULL lib @ ''\<newline>'') [Arg_int 4096]] else []) @
     [''[resultToHumanReadableBasic]:'' @ crlf, resultToHumanReadableBasic inp] @
     (if resultAcToString inp \<noteq> []
      then [''[resultsAcToString]:'' @ crlf,
            (D_STR_MESGDESC lib @ '': '' @ resultAcToString inp) @ crlf]
      else []) @
     [''[resultsToSourceCode]:'' @ crlf, resultToSourceCode inp @ crlf] @
     (if address (decode_stored inp) \<noteq> 0
      then [printf ''Address: 0x%02X%02X (%d)\<newline>''
              [Arg_int (address (decode_stored inp)), Arg_int (0xFF - address (decode_stored inp)),
               Arg_int (address (decode_stored inp))]]
      else []) @
     (if command (decode_stored inp) \<noteq> 0
      then [printf ''Command: 0x%02X%02X (%d)\<newline>''
              [Arg_int (command (decode_stored inp)), Arg_int (0xFF - command (decode_stored inp)),
               Arg_int (command (decode_stored inp))]]
      else []) @
     (if value64 (decode_stored inp) \<noteq> 0
      then [printf ''Value  : 0x%08X%08X\<newline>''
              [Arg_int (ucast (drop_bit 32 (value64 (decode_stored inp)) AND 0xFFFFFFFF)),
               Arg_int (ucast (value64 (decode_stored inp) AND 0xFFFFFFFF))]]
      else []) @
     [''[====== ESP8266IRRecord - END ======]'' @ crlf]"
  unfolding serial_written_def by (subst loop_handled, assumption, assumption) (simp cong: if_cong)


subsection \<open>Clearing the display\<close>

text \<open>
  Claim C1. In a pass that handles a new decode result (the decoder returned true and
  the repeat flag is clear), \<^verbatim>\<open>g_currentMillis\<close> is the clock read at the top of the
  pass, and the display calls of the pass are: the screen filled black and the cursor
  set to (0, 0) exactly when \<^verbatim>\<open>g_currentMillis - g_previousDisplayMillis\<close> is strictly
  greater than 2000, followed in both cases by the same rendering calls. At 2000 or
  less no call clears the screen or moves the cursor.
\<close>

theorem clear_iff_elapsed_exceeds_threshold:
  assumes "decode_returned inp" and "\<not> repeat (decode_stored inp)"
  shows "g_currentMillis (loop lib inp s) = millis_loop inp \<and>
    display_drawn lib inp s =
      (if CLEAR_AFTER_MILLISECONDS < millis_loop inp - g_previousDisplayMillis s
       then [FillScreen SSD1306_BLACK, SetCursor 0 0] else []) @
      [SetTextSize 1, SetTextColor SSD1306_WHITE,
       Write (printf ''Protocol: %s\<newline>'' [Arg_str (typeToString inp)]),
       Write (printf ''Code    : %s\<newline>'' [Arg_str (resultToHexidecimal inp)])] @
      (if 0 < address (decode_stored inp)
       then [Write (printf ''Address : 0x%02X%02X (%d)\<newline>''
               [Arg_int (address (decode_stored inp)), Arg_int (0xFF - address (decode_stored inp)),
                Arg_int (address (decode_stored inp))])]
       else []) @
      (if 0 < command (decode_stored inp)
       then [Write (printf ''Command : 0x%02X%02X (%d)\<newline>''
               [Arg_int (command (decode_stored inp)), Arg_int (0xFF - command (decode_stored inp)),
                Arg_int (command (decode_stored inp))])]
       else []) @
      [Display] \<and>
    (FillScreen SSD1306_BLACK \<in> set (display_drawn lib inp s)) =
      (2000 < millis_loop inp - g_previousDisplayMillis s) \<and>
    (SetCursor 0 0 \<in> set (display_drawn lib inp s)) =
      (2000 < millis_loop inp - g_previousDisplayMillis s)"
proof -
  have "g_currentMillis (loop lib inp s) = millis_loop inp"
    by (subst loop_handled [OF assms]) simp
  moreover note display_drawn_handled [OF assms, of lib s]
  ultimately show ?thesis
    by (simp add: CLEAR_AFTER_MILLISECONDS_def)
qed

theorem clear_iff_elapsed_exceeds_threshold_witness:
  "decode_returned nec_pass \<and> \<not> repeat (decode_stored nec_pass) \<and>
   g_currentMillis (loop sample_lib nec_pass reset_state) = 5000 \<and>
   FillScreen SSD1306_BLACK \<in> set (display_drawn sample_lib nec_pass reset_state) \<and>
   FillScreen SSD1306_BLACK \<notin>
     set (display_drawn sample_lib nec_pass (reset_state\<lparr>g_previousDisplayMillis := 3000\<rparr>))"
proof -
  have h: "decode_returned nec_pass" "\<not> repeat (decode_stored nec_pass)"
    by (simp_all add: nec_pass_def nec_results_def)
  have e: "millis_loop nec_pass = 5000" "g_previousDisplayMillis reset_state = 0"
    by (simp_all add: nec_pass_def reset_state_def)
  from clear_iff_elapsed_exceeds_threshold [OF h, of sample_lib reset_state]
    clear_iff_elapsed_exceeds_threshold [OF h, of sample_lib
      "reset_state\<lparr>g_previousDisplayMillis := 3000\<rparr>"]
  show ?thesis using h by (simp add: e CLEAR_AFTER_MILLISECONDS_def)
qed

subsection \<open>The idle indicator\<close>

text \<open>
  Claim C2. In a pass in which no new code was decoded (the decoder returned false, or
  the result is a repeat), the display calls are exactly one filled white 2x2 rectangle
  at x = 126, y = 62 followed by the flush when the elapsed time exceeds 2000 ms, and no
  call at all when it is at most 2000 ms.
\<close>

theorem idle_indicator:
  assumes "\<not> (decode_returned inp \<and> \<not> repeat (decode_stored inp))"
  shows "display_drawn lib inp s =
      (if CLEAR_AFTER_MILLISECONDS < millis_loop inp - g_previousDisplayMillis s
       then [FillRect (SCREEN_WIDTH - 2) (SCREEN_HEIGHT - 2) 2 2 SSD1306_WHITE, Display] else []) \<and>
    SCREEN_WIDTH - 2 = 126 \<and> SCREEN_HEIGHT - 2 = 62 \<and>
    g_currentMillis (loop lib inp s) = millis_loop inp"
proof -
  have "g_currentMillis (loop lib inp s) = millis_loop inp"
    by (subst loop_idle [OF assms]) simp
  then show ?thesis
    by (simp add: display_drawn_idle [OF assms] CLEAR_AFTER_MILLISECONDS_def SCREEN_WIDTH_def
        SCREEN_HEIGHT_def)
qed

theorem idle_indicator_witness:
  "\<not> (decode_returned idle_pass \<and> \<not> repeat (decode_stored idle_pass)) \<and>
   display_drawn sample_lib idle_pass reset_state = [FillRect 126 62 2 2 SSD1306_WHITE, Display] \<and>
   display_drawn sample_lib idle_pass (reset_state\<lparr>g_previousDisplayMillis := 3000\<rparr>) = []"
proof -
  have h: "\<not> (decode_returned idle_pass \<and> \<not> repeat (decode_stored idle_pass))"
    by (simp add: idle_pass_def)
  have e: "millis_loop idle_pass = 5000" "g_previousDisplayMillis reset_state = 0"
    by (simp_all add: idle_pass_def nec_pass_def reset_state_def)
  from idle_indicator [OF h, of sample_lib reset_state]
    idle_indicator [OF h, of sample_lib "reset_state\<lparr>g_previousDisplayMillis := 3000\<rparr>"]
  show ?thesis using h by (simp add: e CLEAR_AFTER_MILLISECONDS_def)
qed

subsection \<open>Repeat codes\<close>

text \<open>
  Claim C3. When the decoder returns a result whose repeat flag is set, the pass writes
  nothing to the serial line, leaves \<^verbatim>\<open>g_previousDisplayMillis\<close> as it was and
  writes no text to the display: the only display calls it can make are those of the
  idle indicator. The state it reaches is not one \<^verbatim>\<open>displayResults\<close> returns, since
  \<^verbatim>\<open>displayResults\<close> always adds calls to the display log.
\<close>

theorem repeat_not_rendered:
  assumes "decode_returned inp" and "repeat (decode_stored inp)"
  shows "serial_written lib inp s = [] \<and>
    g_previousDisplayMillis (loop lib inp s) = g_previousDisplayMillis s \<and>
    display_drawn lib inp s =
      (if CLEAR_AFTER_MILLISECONDS < millis_loop inp - g_previousDisplayMillis s
       then [FillRect 126 62 2 2 SSD1306_WHITE, Display] else []) \<and>
    (\<forall>t. Write t \<notin> set (display_drawn lib inp s)) \<and>
    loop lib inp s \<noteq> displayResults (decode_stored inp) inp (loop lib inp s)"
proof -
  from assms have idle: "\<not> (decode_returned inp \<and> \<not> repeat (decode_stored inp))" by simp
  have p: "g_previousDisplayMillis (loop lib inp s) = g_previousDisplayMillis s"
    by (subst loop_idle [OF idle]) simp
  have d: "display_log (displayResults r inp t) \<noteq> display_log t" for r and t :: "'a firmware_state_scheme"
    by (simp add: displayResults_eq)
  have "loop lib inp s \<noteq> displayResults (decode_stored inp) inp (loop lib inp s)"
    using d [of "decode_stored inp" "loop lib inp s"] by metis
  with p show ?thesis
    by (simp add: serial_written_idle [OF idle] display_drawn_idle [OF idle] CLEAR_AFTER_MILLISECONDS_def)
qed

theorem repeat_not_rendered_witness:
  "decode_returned repeat_pass \<and> repeat (decode_stored repeat_pass) \<and>
   serial_written sample_lib repeat_pass reset_state = [] \<and>
   g_previousDisplayMillis (loop sample_lib repeat_pass reset_state) = 0 \<and>
   display_drawn sample_lib repeat_pass reset_state = [FillRect 126 62 2 2 SSD1306_WHITE, Display]"
proof -
  have h: "decode_returned repeat_pass" "repeat (decode_stored repeat_pass)"
    by (simp_all add: repeat_pass_def nec_pass_def)
  have e: "millis_loop repeat_pass = 5000" "g_previousDisplayMillis reset_state = 0"
    by (simp_all add: repeat_pass_def nec_pass_def reset_state_def)
  from repeat_not_rendered [OF h, of sample_lib reset_state]
  show ?thesis using h by (simp add: e CLEAR_AFTER_MILLISECONDS_def)
qed

subsection \<open>Printed numbers\<close>

lemma hexdigit_zero: "hexdigit 0 = CHR ''0''"
  by (simp add: hexdigit_def)

lemma hex_fixed_zero: "hex_fixed k 0 = replicate k (CHR ''0'')"
  by (induction k) (simp_all add: hexdigit_zero replicate_append_same)

lemma length_hex_fixed: "length (hex_fixed k n) = k"
  by (induction k arbitrary: n) simp_all

text \<open>
  \<^verbatim>\<open>%0kX\<close> prints exactly \<open>k\<close> digits when the number fits in \<open>k\<close> hexadecimal
  digits.
\<close>

lemma pad_hex_upper:
  "n < 16 ^ Suc k \<Longrightarrow> pad_left (CHR ''0'') (Suc k) (hex_upper n) = hex_fixed (Suc k) n"
proof (induction k arbitrary: n)
  case 0
  then show ?case by (simp add: hex_upper.simps pad_left_def)
next
  case (Suc k)
  show ?case
  proof (cases "n < 16")
    case True
    then show ?thesis
      by (simp add: hex_upper.simps pad_left_def hex_fixed_zero replicate_append_same)
  next
    case False
    from Suc.prems have d: "n div 16 < 16 ^ Suc k"
      by (simp add: less_mult_imp_div_less mult.commute)
    have "pad_left (CHR ''0'') (Suc (Suc k)) (hex_upper n) =
          pad_left (CHR ''0'') (Suc k) (hex_upper (n div 16)) @ [hexdigit (n mod 16)]"
      using False by (subst hex_upper.simps) (simp add: pad_left_def)
    with Suc.IH [OF d] show ?thesis by simp
  qed
qed

lemma hex_fixed_add: "hex_fixed (j + k) n = hex_fixed j (n div 16 ^ k) @ hex_fixed k n"
proof (induction k arbitrary: n)
  case 0
  show ?case by simp
next
  case (Suc k)
  have "(n div 16) div 16 ^ k = n div 16 ^ Suc k"
    by (simp add: div_mult2_eq)
  with Suc.IH [of "n div 16"] show ?case by simp
qed

lemma hex_fixed_mod: "hex_fixed k (n mod 16 ^ k) = hex_fixed k n"
proof (induction k arbitrary: n)
  case 0
  show ?case by simp
next
  case (Suc k)
  have a: "(n mod 16 ^ Suc k) div 16 = (n div 16) mod 16 ^ k"
    by (simp add: mod_mult2_eq)
  have b: "(n mod 16 ^ Suc k) mod 16 = n mod 16"
    by (simp add: mod_mod_cancel)
  show ?case by (simp only: hex_fixed.simps a b Suc.IH)
qed

lemma hexdigit_value_hexdigit: "d < 16 \<Longrightarrow> hexdigit_value (hexdigit d) = d"
proof -
  assume "d < 16"
  then have "d = 0 \<or> d = 1 \<or> d = 2 \<or> d = 3 \<or> d = 4 \<or> d = 5 \<or> d = 6 \<or> d = 7 \<or> d = 8 \<or> d = 9 \<or>
    d = 10 \<or> d = 11 \<or> d = 12 \<or> d = 13 \<or> d = 14 \<or> d = 15" by arith
  then show ?thesis
    by (elim disjE) (simp_all add: hexdigit_value_def hexdigit_def is_digit_def)
qed

lemma hex_value_snoc: "hex_value (cs @ [c]) = 16 * hex_value cs + hexdigit_value c"
  by (simp add: hex_value_def)

lemma hex_value_hex_fixed: "hex_value (hex_fixed k n) = n mod 16 ^ k"
proof (induction k arbitrary: n)
  case 0
  show ?case by (simp add: hex_value_def)
next
  case (Suc k)
  have "hex_value (hex_fixed (Suc k) n) = 16 * ((n div 16) mod 16 ^ k) + n mod 16"
    by (simp add: hex_value_snoc Suc.IH hexdigit_value_hexdigit)
  also have "\<dots> = n mod 16 ^ Suc k"
    by (simp add: mod_mult2_eq)
  finally show ?case .
qed

lemma hex2: "n < 256 \<Longrightarrow> pad_left (CHR ''0'') 2 (hex_upper n) = hex_fixed 2 n"
proof -
  assume "n < 256"
  then have a: "n < 16 ^ Suc 1" by simp
  have e: "Suc 1 = 2" by simp
  from pad_hex_upper [OF a] show ?thesis unfolding e .
qed

lemma hex8: "n < 2 ^ 32 \<Longrightarrow> pad_left (CHR ''0'') 8 (hex_upper n) = hex_fixed 8 n"
proof -
  assume "n < 2 ^ 32"
  then have a: "n < 16 ^ Suc 7" by simp
  have e: "Suc 7 = 8" by simp
  from pad_hex_upper [OF a] show ?thesis unfolding e .
qed

text \<open>The two halves of a 64-bit value, as the program computes them.\<close>

lemma high_half:
  "unat (ucast (drop_bit 32 (v :: 64 word) AND 0xFFFFFFFF) :: 32 word) = unat v div 2 ^ 32"
proof -
  have "(0xFFFFFFFF :: 64 word) = mask 32" by (simp add: mask_eq_exp_minus_1)
  then have e: "drop_bit 32 v AND 0xFFFFFFFF = take_bit 32 (drop_bit 32 v)"
    by (simp add: take_bit_eq_mask)
  have "unat v < 2 ^ 64" using unsigned_less [of v] by simp
  then have "unat v div 2 ^ 32 < 2 ^ 32" by (simp add: less_mult_imp_div_less)
  then have t: "take_bit 32 (unat v div 2 ^ 32) = unat v div 2 ^ 32"
    by (simp add: take_bit_nat_eq_self)
  have "unat (ucast (take_bit 32 (drop_bit 32 v)) :: 32 word) =
        take_bit 32 (take_bit 32 (drop_bit 32 (unat v)))"
    by (simp add: unsigned_ucast_eq unsigned_take_bit_eq unat_drop_bit_eq)
  also have "\<dots> = take_bit 32 (unat v div 2 ^ 32)"
    by (simp add: drop_bit_eq_div)
  finally show ?thesis using t e by simp
qed

lemma low_half:
  "unat (ucast ((v :: 64 word) AND 0xFFFFFFFF) :: 32 word) = unat v mod 2 ^ 32"
proof -
  have "(0xFFFFFFFF :: 64 word) = mask 32" by (simp add: mask_eq_exp_minus_1)
  then have e: "v AND 0xFFFFFFFF = take_bit 32 v"
    by (simp add: take_bit_eq_mask)
  have "unat (ucast (take_bit 32 v) :: 32 word) = take_bit 32 (take_bit 32 (unat v))"
    by (simp add: unsigned_ucast_eq unsigned_take_bit_eq)
  also have "\<dots> = unat v mod 2 ^ 32"
    by (simp add: take_bit_eq_mod)
  finally show ?thesis using e by simp
qed

lemma sint_byte: "(a :: 32 word) \<le> 0xFF \<Longrightarrow> sint a = int (unat a)"
proof -
  assume "a \<le> 0xFF"
  then have "uint a \<le> 255" by (simp add: word_le_def)
  then have b2: "uint a < 2 ^ 31" by simp
  have "- (2 ^ 31) \<le> (0 :: int)" by simp
  also have "0 \<le> uint a" by simp
  finally have b1: "- (2 ^ 31) \<le> uint a" .
  note b = b1 b2
  have t: "signed_take_bit 31 (uint a) = uint a"
    by (rule signed_take_bit_int_eq_self) (fact b)+
  have L: "LENGTH(32) - Suc 0 = 31" by simp
  have "sint a = signed_take_bit 31 (uint a)"
    by (simp only: sint_uint L)
  with t show ?thesis by (simp only: uint_nat)
qed

lemma unat_complement_byte: "(a :: 32 word) \<le> 0xFF \<Longrightarrow> unat (0xFF - a) = 255 - unat a"
  by (simp add: unat_sub word_le_nat_alt)

text \<open>The formats of the program, scanned.\<close>

lemma printf_Address_display:
  "printf ''Address : 0x%02X%02X (%d)\<newline>'' [Arg_int a, Arg_int b, Arg_int c] =
   ''Address : 0x'' @ pad_left (CHR ''0'') 2 (hex_upper (unat a)) @
   pad_left (CHR ''0'') 2 (hex_upper (unat b)) @ '' ('' @ dec_int (sint c) @ '')\<newline>''"
  by (simp add: printf_def is_digit_def digit_val_def pad_left_def numeral_2_eq_2)

lemma printf_Command_display:
  "printf ''Command : 0x%02X%02X (%d)\<newline>'' [Arg_int a, Arg_int b, Arg_int c] =
   ''Command : 0x'' @ pad_left (CHR ''0'') 2 (hex_upper (unat a)) @
   pad_left (CHR ''0'') 2 (hex_upper (unat b)) @ '' ('' @ dec_int (sint c) @ '')\<newline>''"
  by (simp add: printf_def is_digit_def digit_val_def pad_left_def numeral_2_eq_2)

lemma printf_Address_serial:
  "printf ''Address: 0x%02X%02X (%d)\<newline>'' [Arg_int a, Arg_int b, Arg_int c] =
   ''Address: 0x'' @ pad_left (CHR ''0'') 2 (hex_upper (unat a)) @
   pad_left (CHR ''0'') 2 (hex_upper (unat b)) @ '' ('' @ dec_int (sint c) @ '')\<newline>''"
  by (simp add: printf_def is_digit_def digit_val_def pad_left_def numeral_2_eq_2)

lemma printf_Command_serial:
  "printf ''Command: 0x%02X%02X (%d)\<newline>'' [Arg_int a, Arg_int b, Arg_int c] =
   ''Command: 0x'' @ pad_left (CHR ''0'') 2 (hex_upper (unat a)) @
   pad_left (CHR ''0'') 2 (hex_upper (unat b)) @ '' ('' @ dec_int (sint c) @ '')\<newline>''"
  by (simp add: printf_def is_digit_def digit_val_def pad_left_def numeral_2_eq_2)

lemma printf_Value:
  "printf ''Value  : 0x%08X%08X\<newline>'' [Arg_int a, Arg_int b] =
   ''Value  : 0x'' @ pad_left (CHR ''0'') 8 (hex_upper (unat a)) @
   pad_left (CHR ''0'') 8 (hex_upper (unat b)) @ ''\<newline>''"
  by (simp add: printf_def is_digit_def digit_val_def pad_left_def)

lemma pair_of_byte:
  assumes "(a :: 32 word) \<le> 0xFF"
  shows "''0x'' @ pad_left (CHR ''0'') 2 (hex_upper (unat a)) @
         pad_left (CHR ''0'') 2 (hex_upper (unat (0xFF - a))) @ '' ('' @ dec_int (sint a) @ '')\<newline>'' =
         pair_format (unat a) @ ''\<newline>''"
proof -
  from assms have u: "unat a \<le> 255" by (simp add: word_le_nat_alt)
  then have "unat a < 256" "255 - unat a < 256" by simp_all
  then show ?thesis
    by (simp add: pair_format_def hex2 unat_complement_byte [OF assms] sint_byte [OF assms]
        dec_int_def del: hex_fixed.simps)
qed

lemma value_line:
  "printf ''Value  : 0x%08X%08X\<newline>''
     [Arg_int (ucast (drop_bit 32 (v :: 64 word) AND 0xFFFFFFFF)), Arg_int (ucast (v AND 0xFFFFFFFF))] =
   ''Value  : 0x'' @ hex_fixed 16 (unat v) @ ''\<newline>''"
proof -
  have "unat v < 2 ^ 64" using unsigned_less [of v] by simp
  then have h: "unat v div 2 ^ 32 < 2 ^ 32" by (simp add: less_mult_imp_div_less)
  have l: "unat v mod 2 ^ 32 < 2 ^ 32" by simp
  have "hex_fixed 16 (unat v) = hex_fixed 8 (unat v div 16 ^ 8) @ hex_fixed 8 (unat v)"
    using hex_fixed_add [of 8 8 "unat v"] by simp
  also have "hex_fixed 8 (unat v) = hex_fixed 8 (unat v mod 16 ^ 8)"
    by (simp only: hex_fixed_mod)
  finally have "hex_fixed 16 (unat v) =
      hex_fixed 8 (unat v div 2 ^ 32) @ hex_fixed 8 (unat v mod 2 ^ 32)"
    by simp
  moreover have "pad_left (CHR ''0'') 8 (hex_upper (unat (ucast (drop_bit 32 v AND 0xFFFFFFFF) :: 32 word))) =
      hex_fixed 8 (unat v div 2 ^ 32)"
    by (simp only: high_half hex8 [OF h])
  moreover have "pad_left (CHR ''0'') 8 (hex_upper (unat (ucast (v AND 0xFFFFFFFF) :: 32 word))) =
      hex_fixed 8 (unat v mod 2 ^ 32)"
    by (simp only: low_half hex8 [OF l])
  ultimately show ?thesis
    by (simp only: printf_Value append_assoc)
qed

subsection \<open>The address and command lines\<close>

lemma pair_format_4: "pair_format 4 = ''0x04FB (4)''"
  by (simp add: pair_format_def numeral_2_eq_2 hexdigit_def dec_nat.simps)

lemma pair_format_2: "pair_format 2 = ''0x02FD (2)''"
  by (simp add: pair_format_def numeral_2_eq_2 hexdigit_def dec_nat.simps)

text \<open>
  Claim C4. In a pass that handles a new decode result, an address \<open>V\<close> with
  \<open>0 < V \<le> 0xFF\<close> is written to the display as the line \<^verbatim>\<open>Address : \<close> followed by
  \<^verbatim>\<open>0x\<close>, \<open>V\<close> in two upper-case hexadecimal digits, \<open>0xFF - V\<close> in two upper-case
  hexadecimal digits, a space and \<open>V\<close> in decimal in parentheses; the serial line gets
  the same text after the label \<^verbatim>\<open>Address: \<close>. The same holds for the command, with
  the labels \<^verbatim>\<open>Command : \<close> and \<^verbatim>\<open>Command: \<close>. Address 0x04 gives \<^verbatim>\<open>0x04FB (4)\<close>.
\<close>

theorem address_command_format:
  assumes "decode_returned inp" and "\<not> repeat (decode_stored inp)"
  shows
    "(0 < address (decode_stored inp) \<and> address (decode_stored inp) \<le> 0xFF \<longrightarrow>
       Write (''Address : '' @ pair_format (unat (address (decode_stored inp))) @ ''\<newline>'')
         \<in> set (display_drawn lib inp s) \<and>
       ''Address: '' @ pair_format (unat (address (decode_stored inp))) @ ''\<newline>''
         \<in> set (serial_written lib inp s)) \<and>
     (0 < command (decode_stored inp) \<and> command (decode_stored inp) \<le> 0xFF \<longrightarrow>
       Write (''Command : '' @ pair_format (unat (command (decode_stored inp))) @ ''\<newline>'')
         \<in> set (display_drawn lib inp s) \<and>
       ''Command: '' @ pair_format (unat (command (decode_stored inp))) @ ''\<newline>''
         \<in> set (serial_written lib inp s))"
proof (intro conjI impI)
  assume a: "0 < address (decode_stored inp) \<and> address (decode_stored inp) \<le> 0xFF"
  then have nz: "address (decode_stored inp) \<noteq> 0" by auto
  from a have "address (decode_stored inp) \<le> 0xFF" by simp
  note p = pair_of_byte [OF this]
  show "Write (''Address : '' @ pair_format (unat (address (decode_stored inp))) @ ''\<newline>'')
      \<in> set (display_drawn lib inp s)"
    using a p by (simp add: display_drawn_handled [OF assms] printf_Address_display)
  show "''Address: '' @ pair_format (unat (address (decode_stored inp))) @ ''\<newline>''
      \<in> set (serial_written lib inp s)"
    using nz p by (simp add: serial_written_handled [OF assms] printf_Address_serial)
next
  assume a: "0 < command (decode_stored inp) \<and> command (decode_stored inp) \<le> 0xFF"
  then have nz: "command (decode_stored inp) \<noteq> 0" by auto
  from a have "command (decode_stored inp) \<le> 0xFF" by simp
  note p = pair_of_byte [OF this]
  show "Write (''Command : '' @ pair_format (unat (command (decode_stored inp))) @ ''\<newline>'')
      \<in> set (display_drawn lib inp s)"
    using a p by (simp add: display_drawn_handled [OF assms] printf_Command_display)
  show "''Command: '' @ pair_format (unat (command (decode_stored inp))) @ ''\<newline>''
      \<in> set (serial_written lib inp s)"
    using nz p by (simp add: serial_written_handled [OF assms] printf_Command_serial)
qed

theorem address_command_format_witness:
  "decode_returned nec_pass \<and> \<not> repeat (decode_stored nec_pass) \<and>
   address (decode_stored nec_pass) = 0x04 \<and> command (decode_stored nec_pass) = 0x02 \<and>
   Write ''Address : 0x04FB (4)\<newline>'' \<in> set (display_drawn sample_lib nec_pass reset_state) \<and>
   ''Address: 0x04FB (4)\<newline>'' \<in> set (serial_written sample_lib nec_pass reset_state) \<and>
   Write ''Command : 0x02FD (2)\<newline>'' \<in> set (display_drawn sample_lib nec_pass reset_state) \<and>
   ''Command: 0x02FD (2)\<newline>'' \<in> set (serial_written sample_lib nec_pass reset_state)"
proof -
  have h: "decode_returned nec_pass" "\<not> repeat (decode_stored nec_pass)"
    by (simp_all add: nec_pass_def nec_results_def)
  have e: "address (decode_stored nec_pass) = 4" "command (decode_stored nec_pass) = 2"
    by (simp_all add: nec_pass_def nec_results_def)
  from address_command_format [OF h, of sample_lib reset_state]
  show ?thesis using h by (simp add: e pair_format_4 pair_format_2)
qed

subsection \<open>Fields that are zero\<close>

text \<open>
  Claim C8. When the address of the decode result is 0, no address line is written: in
  a pass that handles the result, the code line on the display is followed directly by
  the command line (if any) and the flush, and on the serial line the source-code dump
  is followed directly by the command line (if any). The same holds for a command of 0.
  In every other pass nothing is written to the serial line and no text to the display.
\<close>

theorem zero_field_omitted:
  "(decode_returned inp \<and> \<not> repeat (decode_stored inp) \<and> address (decode_stored inp) = 0 \<longrightarrow>
       display_drawn lib inp s =
         (if 2000 < millis_loop inp - g_previousDisplayMillis s
          then [FillScreen SSD1306_BLACK, SetCursor 0 0] else []) @
         [SetTextSize 1, SetTextColor SSD1306_WHITE,
          Write (printf ''Protocol: %s\<newline>'' [Arg_str (typeToString inp)]),
          Write (printf ''Code    : %s\<newline>'' [Arg_str (resultToHexidecimal inp)])] @
         (if 0 < command (decode_stored inp)
          then [Write (printf ''Command : 0x%02X%02X (%d)\<newline>''
                  [Arg_int (command (decode_stored inp)), Arg_int (0xFF - command (decode_stored inp)),
                   Arg_int (command (decode_stored inp))])]
          else []) @
         [Display] \<and>
       serial_written lib inp s =
         [''[====== ESP8266IRRecord - BEGIN ======]'' @ crlf] @
         (if overflow (decode_stored inp)
          then [printf (D_WARN_BUFFERFULL lib @ ''\<newline>'') [Arg_int 4096]] else []) @
         [''[resultToHumanReadableBasic]:'' @ crlf, resultToHumanReadableBasic inp] @
         (if resultAcToString inp \<noteq> []
          then [''[resultsAcToString]:'' @ crlf,
                (D_STR_MESGDESC lib @ '': '' @ resultAcToString inp) @ crlf]
          else []) @
         [''[resultsToSourceCode]:'' @ crlf, resultToSourceCode inp @ crlf] @
         (if command (decode_stored inp) \<noteq> 0
          then [printf ''Command: 0x%02X%02X (%d)\<newline>''
                  [Arg_int (command (decode_stored inp)), Arg_int (0xFF - command (decode_stored inp)),
                   Arg_int (command (decode_stored inp))]]
          else []) @
         (if value64 (decode_stored inp) \<noteq> 0
          then [printf ''Value  : 0x%08X%08X\<newline>''
                  [Arg_int (ucast (drop_bit 32 (value64 (decode_stored inp)) AND 0xFFFFFFFF)),
                   Arg_int (ucast (value64 (decode_stored inp) AND 0xFFFFFFFF))]]
          else []) @
         [''[====== ESP8266IRRecord - END ======]'' @ crlf]) \<and>
   (decode_returned inp \<and> \<not> repeat (decode_stored inp) \<and> command (decode_stored inp) = 0 \<longrightarrow>
       display_drawn lib inp s =
         (if 2000 < millis_loop inp - g_previousDisplayMillis s
          then [FillScreen SSD1306_BLACK, SetCursor 0 0] else []) @
         [SetTextSize 1, SetTextColor SSD1306_WHITE,
          Write (printf ''Protocol: %s\<newline>'' [Arg_str (typeToString inp)]),
          Write (printf ''Code    : %s\<newline>'' [Arg_str (resultToHexidecimal inp)])] @
         (if 0 < address (decode_stored inp)
          then [Write (printf ''Address : 0x%02X%02X (%d)\<newline>''
                  [Arg_int (address (decode_stored inp)), Arg_int (0xFF - address (decode_stored inp)),
                   Arg_int (address (decode_stored inp))])]
          else []) @
         [Display] \<and>
       serial_written lib inp s =
         [''[====== ESP8266IRRecord - BEGIN ======]'' @ crlf] @
         (if overflow (decode_stored inp)
          then [printf (D_WARN_BUFFERFULL lib @ ''\<newline>'') [Arg_int 4096]] else []) @
         [''[resultToHumanReadableBasic]:'' @ crlf, resultToHumanReadableBasic inp] @
         (if resultAcToString inp \<noteq> []
          then [''[resultsAcToString]:'' @ crlf,
                (D_STR_MESGDESC lib @ '': '' @ resultAcToString inp) @ crlf]
          else []) @
         [''[resultsToSourceCode]:'' @ crlf, resultToSourceCode inp @ crlf] @
         (if address (decode_stored inp) \<noteq> 0
          then [printf ''Address: 0x%02X%02X (%d)\<newline>''
                  [Arg_int (address (decode_stored inp)), Arg_int (0xFF - address (decode_stored inp)),
                   Arg_int (address (decode_stored inp))]]
          else []) @
         (if value64 (decode_stored inp) \<noteq> 0
          then [printf ''Value  : 0x%08X%08X\<newline>''
                  [Arg_int (ucast (drop_bit 32 (value64 (decode_stored inp)) AND 0xFFFFFFFF)),
                   Arg_int (ucast (value64 (decode_stored inp) AND 0xFFFFFFFF))]]
          else []) @
         [''[====== ESP8266IRRecord - END ======]'' @ crlf]) \<and>
   (\<not> (decode_returned inp \<and> \<not> repeat (decode_stored inp)) \<longrightarrow>
       serial_written lib inp s = [] \<and> (\<forall>t. Write t \<notin> set (display_drawn lib inp s)))"
  apply (intro conjI impI; (elim conjE)?)
      apply (subst display_drawn_handled, assumption, assumption, simp cong: if_cong)
     apply (subst serial_written_handled, assumption, assumption, simp cong: if_cong)
    apply (subst display_drawn_handled, assumption, assumption, simp cong: if_cong)
   apply (subst serial_written_handled, assumption, assumption, simp cong: if_cong)
   apply (subst serial_written_idle, assumption, simp)
  apply (subst display_drawn_idle, assumption, simp)
  done

theorem zero_field_omitted_witness:
  "decode_returned (nec_pass\<lparr>decode_stored := nec_results\<lparr>address := 0\<rparr>\<rparr>) \<and>
   \<not> repeat (decode_stored (nec_pass\<lparr>decode_stored := nec_results\<lparr>address := 0\<rparr>\<rparr>)) \<and>
   address (decode_stored (nec_pass\<lparr>decode_stored := nec_results\<lparr>address := 0\<rparr>\<rparr>)) = 0 \<and>
   display_drawn sample_lib (nec_pass\<lparr>decode_stored := nec_results\<lparr>address := 0\<rparr>\<rparr>) reset_state =
     [FillScreen SSD1306_BLACK, SetCursor 0 0, SetTextSize 1, SetTextColor SSD1306_WHITE,
      Write ''Protocol: NEC\<newline>'', Write ''Code    : 0x20DF40BF\<newline>'',
      Write ''Command : 0x02FD (2)\<newline>'', Display] \<and>
   serial_written sample_lib repeat_pass reset_state = []"
proof -
  let ?inp = "nec_pass\<lparr>decode_stored := nec_results\<lparr>address := 0\<rparr>\<rparr>"
  have h: "decode_returned ?inp \<and> \<not> repeat (decode_stored ?inp) \<and> address (decode_stored ?inp) = 0"
    by (simp add: nec_pass_def nec_results_def)
  have r: "\<not> (decode_returned repeat_pass \<and> \<not> repeat (decode_stored repeat_pass))"
    by (simp add: repeat_pass_def)
  have e: "millis_loop ?inp = 5000" "g_previousDisplayMillis reset_state = 0"
    "typeToString ?inp = ''NEC''" "resultToHexidecimal ?inp = ''0x20DF40BF''"
    "command (decode_stored ?inp) = 2"
    by (simp_all add: nec_pass_def nec_results_def reset_state_def)
  have p: "printf ''Protocol: %s\<newline>'' [Arg_str ''NEC''] = ''Protocol: NEC\<newline>''"
    "printf ''Code    : %s\<newline>'' [Arg_str ''0x20DF40BF''] = ''Code    : 0x20DF40BF\<newline>''"
    by (simp_all add: printf_def pad_left_def is_digit_def)
  have c: "printf ''Command : 0x%02X%02X (%d)\<newline>'' [Arg_int 2, Arg_int (0xFF - 2), Arg_int 2] =
      ''Command : 0x02FD (2)\<newline>''"
    by (simp add: printf_def is_digit_def digit_val_def pad_left_def hex_upper.simps dec_int_def
        dec_nat.simps hexdigit_def)
  from zero_field_omitted [of ?inp sample_lib reset_state] h
  have "display_drawn sample_lib ?inp reset_state =
         (if 2000 < millis_loop ?inp - g_previousDisplayMillis reset_state
          then [FillScreen SSD1306_BLACK, SetCursor 0 0] else []) @
         [SetTextSize 1, SetTextColor SSD1306_WHITE,
          Write (printf ''Protocol: %s\<newline>'' [Arg_str (typeToString ?inp)]),
          Write (printf ''Code    : %s\<newline>'' [Arg_str (resultToHexidecimal ?inp)])] @
         (if 0 < command (decode_stored ?inp)
          then [Write (printf ''Command : 0x%02X%02X (%d)\<newline>''
                  [Arg_int (command (decode_stored ?inp)), Arg_int (0xFF - command (decode_stored ?inp)),
                   Arg_int (command (decode_stored ?inp))])]
          else []) @
         [Display]"
    by blast
  then have d: "display_drawn sample_lib ?inp reset_state =
     [FillScreen SSD1306_BLACK, SetCursor 0 0, SetTextSize 1, SetTextColor SSD1306_WHITE,
      Write ''Protocol: NEC\<newline>'', Write ''Code    : 0x20DF40BF\<newline>'',
      Write ''Command : 0x02FD (2)\<newline>'', Display]"
    unfolding e p using c by simp
  from zero_field_omitted [of repeat_pass sample_lib reset_state] r
  have "serial_written sample_lib repeat_pass reset_state = []" by blast
  with d h show ?thesis by blast
qed

subsection \<open>The value line\<close>

lemma hex_fixed_numeral:
  "hex_fixed (numeral k) n = hex_fixed (pred_numeral k) (n div 16) @ [hexdigit (n mod 16)]"
  by (subst numeral_eq_Suc) simp

lemma hex_fixed_halves: "hex_fixed 16 n = hex_fixed 8 (n div 2 ^ 32) @ hex_fixed 8 (n mod 2 ^ 32)"
proof -
  have e: "(16 :: nat) ^ 8 = 2 ^ 32" by simp
  have "hex_fixed (8 + 8) n = hex_fixed 8 (n div 16 ^ 8) @ hex_fixed 8 n"
    by (rule hex_fixed_add)
  also have "hex_fixed 8 n = hex_fixed 8 (n mod 16 ^ 8)"
    by (simp only: hex_fixed_mod)
  finally show ?thesis unfolding e by simp
qed

lemma hex_value_word64: "hex_value (hex_fixed 16 (unat (x :: 64 word))) = unat x"
proof -
  have "unat x < 2 ^ 64" using unsigned_less [of x] by simp
  then have "unat x mod 16 ^ 16 = unat x" by simp
  then show ?thesis by (simp only: hex_value_hex_fixed)
qed

lemma hex_fixed_1: "hex_fixed 1 n = [hexdigit (n mod 16)]"
  by simp

text \<open>
  Claim C9, as stated, for every decode result: the serial line gets the value line
  exactly when the 64-bit value is not zero. This fails for a result with the repeat
  flag set: the decoder returns the NEC repeat code, whose value is
  \<^verbatim>\<open>0xFFFFFFFFFFFFFFFF\<close>, and the pass writes nothing to the serial line.
\<close>

theorem value_line_repeat_counterexample:
  "decode_returned repeat_pass \<and> value64 (decode_stored repeat_pass) \<noteq> 0 \<and>
   serial_written sample_lib repeat_pass reset_state = [] \<and>
   ''Value  : 0xFFFFFFFFFFFFFFFF\<newline>'' \<notin> set (serial_written sample_lib repeat_pass reset_state)"
proof -
  have r: "\<not> (decode_returned repeat_pass \<and> \<not> repeat (decode_stored repeat_pass))"
    by (simp add: repeat_pass_def)
  have "decode_returned repeat_pass" "value64 (decode_stored repeat_pass) \<noteq> 0"
    by (simp_all add: repeat_pass_def nec_pass_def)
  then show ?thesis by (simp add: serial_written_idle [OF r])
qed

text \<open>
  Claim C9, amended: in a pass that handles a new decode result (the decoder returned
  true and the repeat flag is clear), the serial dump ends with the value line and the
  end marker when the 64-bit value is not zero, and with the end marker alone when it
  is zero. The value line is \<^verbatim>\<open>Value  : 0x\<close> followed by 16 upper-case hexadecimal
  digits, the 8 digits of the high 32 bits and then the 8 digits of the low 32 bits;
  read as a hexadecimal number they are the value.
\<close>

theorem value_line_of_handled_result:
  assumes "decode_returned inp" and "\<not> repeat (decode_stored inp)"
  shows "serial_written lib inp s =
         [''[====== ESP8266IRRecord - BEGIN ======]'' @ crlf] @
         (if overflow (decode_stored inp)
          then [printf (D_WARN_BUFFERFULL lib @ ''\<newline>'') [Arg_int 4096]] else []) @
         [''[resultToHumanReadableBasic]:'' @ crlf, resultToHumanReadableBasic inp] @
         (if resultAcToString inp \<noteq> []
          then [''[resultsAcToString]:'' @ crlf,
                (D_STR_MESGDESC lib @ '': '' @ resultAcToString inp) @ crlf]
          else []) @
         [''[resultsToSourceCode]:'' @ crlf, resultToSourceCode inp @ crlf] @
         (if address (decode_stored inp) \<noteq> 0
          then [printf ''Address: 0x%02X%02X (%d)\<newline>''
                  [Arg_int (address (decode_stored inp)), Arg_int (0xFF - address (decode_stored inp)),
                   Arg_int (address (decode_stored inp))]]
          else []) @
         (if command (decode_stored inp) \<noteq> 0
          then [printf ''Command: 0x%02X%02X (%d)\<newline>''
                  [Arg_int (command (decode_stored inp)), Arg_int (0xFF - command (decode_stored inp)),
                   Arg_int (command (decode_stored inp))]]
          else []) @
         (if value64 (decode_stored inp) \<noteq> 0
          then [''Value  : 0x'' @ hex_fixed 16 (unat (value64 (decode_stored inp))) @ ''\<newline>'']
          else []) @
         [''[====== ESP8266IRRecord - END ======]'' @ crlf] \<and>
    hex_fixed 16 (unat (value64 (decode_stored inp))) =
      hex_fixed 8 (unat (value64 (decode_stored inp)) div 2 ^ 32) @
      hex_fixed 8 (unat (value64 (decode_stored inp)) mod 2 ^ 32) \<and>
    length (hex_fixed 16 (unat (value64 (decode_stored inp)))) = 16 \<and>
    hex_value (hex_fixed 16 (unat (value64 (decode_stored inp)))) = unat (value64 (decode_stored inp))"
proof -
  have w: "serial_written lib inp s =
         [''[====== ESP8266IRRecord - BEGIN ======]'' @ crlf] @
         (if overflow (decode_stored inp)
          then [printf (D_WARN_BUFFERFULL lib @ ''\<newline>'') [Arg_int 4096]] else []) @
         [''[resultToHumanReadableBasic]:'' @ crlf, resultToHumanReadableBasic inp] @
         (if resultAcToString inp \<noteq> []
          then [''[resultsAcToString]:'' @ crlf,
                (D_STR_MESGDESC lib @ '': '' @ resultAcToString inp) @ crlf]
          else []) @
         [''[resultsToSourceCode]:'' @ crlf, resultToSourceCode inp @ crlf] @
         (if address (decode_stored inp) \<noteq> 0
          then [printf ''Address: 0x%02X%02X (%d)\<newline>''
                  [Arg_int (address (decode_stored inp)), Arg_int (0xFF - address (decode_stored inp)),
                   Arg_int (address (decode_stored inp))]]
          else []) @
         (if command (decode_stored inp) \<noteq> 0
          then [printf ''Command: 0x%02X%02X (%d)\<newline>''
                  [Arg_int (command (decode_stored inp)), Arg_int (0xFF - command (decode_stored inp)),
                   Arg_int (command (decode_stored inp))]]
          else []) @
         (if value64 (decode_stored inp) \<noteq> 0
          then [''Value  : 0x'' @ hex_fixed 16 (unat (value64 (decode_stored inp))) @ ''\<newline>'']
          else []) @
         [''[====== ESP8266IRRecord - END ======]'' @ crlf]"
    by (simp only: serial_written_handled [OF assms] value_line)
  show ?thesis
    by (intro conjI w hex_fixed_halves length_hex_fixed hex_value_word64)
qed

theorem value_line_of_handled_result_witness:
  "decode_returned nec_pass \<and> \<not> repeat (decode_stored nec_pass) \<and>
   value64 (decode_stored nec_pass) = 0x20DF40BF \<and>
   hex_fixed 16 (unat (value64 (decode_stored nec_pass))) = ''0000000020DF40BF'' \<and>
   hex_value ''0000000020DF40BF'' = 0x20DF40BF \<and>
   ''Value  : 0x0000000020DF40BF\<newline>'' \<in> set (serial_written sample_lib nec_pass reset_state)"
proof -
  have h: "decode_returned nec_pass" "\<not> repeat (decode_stored nec_pass)"
    by (simp_all add: nec_pass_def nec_results_def)
  have e: "value64 (decode_stored nec_pass) = 0x20DF40BF"
    by (simp add: nec_pass_def nec_results_def)
  have x: "hex_fixed 16 (unat (value64 (decode_stored nec_pass))) = ''0000000020DF40BF''"
    by (simp add: e hex_fixed_numeral hex_fixed_1 hexdigit_def)
  note t = value_line_of_handled_result [OF h, of sample_lib reset_state]
  from t have "hex_value (hex_fixed 16 (unat (value64 (decode_stored nec_pass)))) =
      unat (value64 (decode_stored nec_pass))"
    by blast
  then have v: "hex_value ''0000000020DF40BF'' = 0x20DF40BF"
    unfolding x by (simp add: e)
  from t have "''Value  : 0x'' @ hex_fixed 16 (unat (value64 (decode_stored nec_pass))) @ ''\<newline>''
      \<in> set (serial_written sample_lib nec_pass reset_state)"
    by (simp add: e)
  then have m: "''Value  : 0x0000000020DF40BF\<newline>'' \<in> set (serial_written sample_lib nec_pass reset_state)"
    unfolding x by simp
  from h e x v m show ?thesis by blast
qed

subsection \<open>Overflow of the capture buffer\<close>

text \<open>
  Claim C5. Take a pass that handles a new decode result whose overflow flag is set, and
  the same pass with the flag cleared and everything else equal (\<open>inp0\<close>). The serial
  output of the first is the serial output of the second with the buffer-full warning
  inserted after the begin marker: the whole dump is still written, up to the end
  marker. The display calls of the two passes are the same, they end with the flush of
  \<^verbatim>\<open>displayResults\<close>, and \<^verbatim>\<open>g_previousDisplayMillis\<close> is set by \<^verbatim>\<open>displayResults\<close>
  in both.
\<close>

theorem overflow_only_adds_warning:
  assumes "decode_returned inp" and "\<not> repeat (decode_stored inp)"
    and "overflow (decode_stored inp)"
    and "inp0 = inp\<lparr>decode_stored := (decode_stored inp)\<lparr>overflow := False\<rparr>\<rparr>"
  shows "serial_written lib inp s =
      hd (serial_written lib inp0 s) #
      printf (D_WARN_BUFFERFULL lib @ ''\<newline>'') [Arg_int (ucast kCaptureBufferSize)] #
      tl (serial_written lib inp0 s) \<and>
    hd (serial_written lib inp0 s) = ''[====== ESP8266IRRecord - BEGIN ======]'' @ crlf \<and>
    last (serial_written lib inp s) = ''[====== ESP8266IRRecord - END ======]'' @ crlf \<and>
    display_drawn lib inp s = display_drawn lib inp0 s \<and>
    Display \<in> set (display_drawn lib inp s) \<and>
    g_previousDisplayMillis (loop lib inp s) = millis_display inp \<and>
    g_previousDisplayMillis (loop lib inp0 s) = millis_display inp"
proof -
  let ?begin = "''[====== ESP8266IRRecord - BEGIN ======]'' @ crlf"
  let ?warn = "printf (D_WARN_BUFFERFULL lib @ ''\<newline>'') [Arg_int (ucast kCaptureBufferSize)]"
  let ?rest = "[''[resultToHumanReadableBasic]:'' @ crlf, resultToHumanReadableBasic inp] @
         (if resultAcToString inp \<noteq> []
          then [''[resultsAcToString]:'' @ crlf,
                (D_STR_MESGDESC lib @ '': '' @ resultAcToString inp) @ crlf]
          else []) @
         [''[resultsToSourceCode]:'' @ crlf, resultToSourceCode inp @ crlf] @
         (if address (decode_stored inp) \<noteq> 0
          then [printf ''Address: 0x%02X%02X (%d)\<newline>''
                  [Arg_int (address (decode_stored inp)), Arg_int (0xFF - address (decode_stored inp)),
                   Arg_int (address (decode_stored inp))]]
          else []) @
         (if command (decode_stored inp) \<noteq> 0
          then [printf ''Command: 0x%02X%02X (%d)\<newline>''
                  [Arg_int (command (decode_stored inp)), Arg_int (0xFF - command (decode_stored inp)),
                   Arg_int (command (decode_stored inp))]]
          else []) @
         (if value64 (decode_stored inp) \<noteq> 0
          then [printf ''Value  : 0x%08X%08X\<newline>''
                  [Arg_int (ucast (drop_bit 32 (value64 (decode_stored inp)) AND 0xFFFFFFFF)),
                   Arg_int (ucast (value64 (decode_stored inp) AND 0xFFFFFFFF))]]
          else []) @
         [''[====== ESP8266IRRecord - END ======]'' @ crlf]"
  have h0: "decode_returned inp0" "\<not> repeat (decode_stored inp0)"
    using assms by simp_all
  have no: "\<not> overflow (decode_stored inp0)"
    by (simp add: assms(4))
  have w: "serial_written lib inp s = ?begin # ?warn # ?rest"
    using assms(3) by (simp add: serial_written_handled [OF assms(1,2)] kCaptureBufferSize_def cong: if_cong)
  have w0: "serial_written lib inp0 s = ?begin # ?rest"
    using no by (simp add: serial_written_handled [OF h0] cong: if_cong) (simp add: assms(4))
  have l: "last (?begin # ?warn # ?rest) = ''[====== ESP8266IRRecord - END ======]'' @ crlf"
    by (simp only: last_ConsR last_appendR append_assoc [symmetric] last_snoc) simp
  have d: "display_drawn lib inp s = display_drawn lib inp0 s"
    by (simp add: display_drawn_handled [OF assms(1,2)] display_drawn_handled [OF h0] cong: if_cong)
      (simp add: assms(4))
  have m: "Display \<in> set (display_drawn lib inp s)"
    by (simp add: display_drawn_handled [OF assms(1,2)])
  have p: "g_previousDisplayMillis (loop lib inp s) = millis_display inp"
    by (subst loop_handled [OF assms(1,2)]) simp
  have p0: "g_previousDisplayMillis (loop lib inp0 s) = millis_display inp"
    by (subst loop_handled [OF h0]) (simp add: assms(4))
  from w w0 have a: "serial_written lib inp s =
      hd (serial_written lib inp0 s) # ?warn # tl (serial_written lib inp0 s)"
    by (simp only: list.sel)
  from w0 have b: "hd (serial_written lib inp0 s) = ?begin"
    by (simp only: list.sel)
  from w l have c: "last (serial_written lib inp s) = ''[====== ESP8266IRRecord - END ======]'' @ crlf"
    by (simp only:)
  show ?thesis
    by (intro conjI a b c d m p p0)
qed

theorem overflow_only_adds_warning_witness:
  "overflow (decode_stored (nec_pass\<lparr>decode_stored := nec_results\<lparr>overflow := True\<rparr>\<rparr>)) \<and>
   serial_written sample_lib (nec_pass\<lparr>decode_stored := nec_results\<lparr>overflow := True\<rparr>\<rparr>) reset_state =
     hd (serial_written sample_lib nec_pass reset_state) #
     ''WARNING: IR code is too big for buffer (>= 4096).\<newline>'' #
     tl (serial_written sample_lib nec_pass reset_state) \<and>
   display_drawn sample_lib (nec_pass\<lparr>decode_stored := nec_results\<lparr>overflow := True\<rparr>\<rparr>) reset_state =
     display_drawn sample_lib nec_pass reset_state"
proof -
  let ?inp = "nec_pass\<lparr>decode_stored := nec_results\<lparr>overflow := True\<rparr>\<rparr>"
  have h: "decode_returned ?inp" "\<not> repeat (decode_stored ?inp)" "overflow (decode_stored ?inp)"
    by (simp_all add: nec_pass_def nec_results_def)
  have i: "nec_pass = ?inp\<lparr>decode_stored := (decode_stored ?inp)\<lparr>overflow := False\<rparr>\<rparr>"
    by (simp add: nec_pass_def nec_results_def)
  have w: "printf (D_WARN_BUFFERFULL sample_lib @ ''\<newline>'') [Arg_int (ucast kCaptureBufferSize)] =
      ''WARNING: IR code is too big for buffer (>= 4096).\<newline>''"
    by (simp add: sample_lib_def kCaptureBufferSize_def printf_def pad_left_def is_digit_def
        dec_int_def dec_nat.simps hexdigit_def)
  from overflow_only_adds_warning [OF h i, of sample_lib reset_state]
  show ?thesis using h(3) by (simp only: w)
qed

subsection \<open>Failure of the display\<close>

text \<open>
  Claim C6. Suppose \<^verbatim>\<open>setup\<close> reaches \<^verbatim>\<open>display.begin\<close> (the serial port became
  ready and the sanity check passed). If \<^verbatim>\<open>display.begin\<close> fails, \<^verbatim>\<open>setup\<close> never
  returns: it has written the start-up line and the failure message to the serial line,
  has made no display call after \<^verbatim>\<open>begin\<close>, and the program stays in that state
  whatever passes of \<^verbatim>\<open>loop\<close> would have followed. If \<^verbatim>\<open>display.begin\<close> succeeds,
  \<^verbatim>\<open>setup\<close> writes the success message, draws the waiting screen and returns, and
  the passes of \<^verbatim>\<open>loop\<close> run from the state it returns.
\<close>

theorem display_begin_failure_halts:
  assumes "wait_for_serial (Serial_ready sinp) 0 = Some n" and "lowLevelSanityCheck sinp = 0"
  shows
    "(\<not> display_begin sinp \<longrightarrow>
       (\<exists>t. setup_routine lib sinp s = Hung t \<and>
          serial_log t = serial_log s @
            [printf (''\<newline>'' @ D_STR_IRRECVDUMP_STARTUP lib @ ''\<newline>'') [Arg_int (ucast kRecvPin)],
             ''SSD1306 allocation FAILED'' @ crlf] \<and>
          display_log t = display_log s @ [Begin SCREEN_ADDRESS] \<and>
          (\<forall>inps. firmware lib sinp inps s = Hung t))) \<and>
     (display_begin sinp \<longrightarrow>
       (\<exists>t. setup_routine lib sinp s = Returned t \<and>
          serial_log t = serial_log s @
            [printf (''\<newline>'' @ D_STR_IRRECVDUMP_STARTUP lib @ ''\<newline>'') [Arg_int (ucast kRecvPin)],
             ''SSD1306 allocation SUCCEEDED'' @ crlf] \<and>
          display_log t = display_log s @
            [Begin SCREEN_ADDRESS, FillScreen SSD1306_BLACK, SetTextSize 2, SetTextColor SSD1306_WHITE,
             SetCursor 0 0, Write (''Waiting\<newline>for\<newline>IR Code...'' @ crlf), Display] \<and>
          (\<forall>inps. firmware lib sinp inps s = Returned (fold (loop lib) inps t))))"
proof (intro conjI impI)
  assume f: "\<not> display_begin sinp"
  show "\<exists>t. setup_routine lib sinp s = Hung t \<and>
          serial_log t = serial_log s @
            [printf (''\<newline>'' @ D_STR_IRRECVDUMP_STARTUP lib @ ''\<newline>'') [Arg_int (ucast kRecvPin)],
             ''SSD1306 allocation FAILED'' @ crlf] \<and>
          display_log t = display_log s @ [Begin SCREEN_ADDRESS] \<and>
          (\<forall>inps. firmware lib sinp inps s = Hung t)"
    using assms f
    by (simp add: firmware_def setup_routine_def spin_forever_None Let_def stmt_defs)
next
  assume b: "display_begin sinp"
  show "\<exists>t. setup_routine lib sinp s = Returned t \<and>
          serial_log t = serial_log s @
            [printf (''\<newline>'' @ D_STR_IRRECVDUMP_STARTUP lib @ ''\<newline>'') [Arg_int (ucast kRecvPin)],
             ''SSD1306 allocation SUCCEEDED'' @ crlf] \<and>
          display_log t = display_log s @
            [Begin SCREEN_ADDRESS, FillScreen SSD1306_BLACK, SetTextSize 2, SetTextColor SSD1306_WHITE,
             SetCursor 0 0, Write (''Waiting\<newline>for\<newline>IR Code...'' @ crlf), Display] \<and>
          (\<forall>inps. firmware lib sinp inps s = Returned (fold (loop lib) inps t))"
    using assms b
    by (simp add: firmware_def setup_routine_def Let_def stmt_defs TEXT_SIZE_MEDIUM_def)
qed

theorem display_begin_failure_halts_witness:
  "wait_for_serial (Serial_ready ready_setup) 0 = Some 0 \<and> lowLevelSanityCheck ready_setup = 0 \<and>
   \<not> display_begin ready_setup \<and>
   (\<exists>t. firmware sample_lib ready_setup [nec_pass, idle_pass] reset_state = Hung t \<and>
        serial_log t =
          [''\<newline>IRrecvDump is now running and waiting for IR input on Pin 14\<newline>'',
           ''SSD1306 allocation FAILED'' @ crlf] \<and>
        display_log t = [Begin 0x3C])"
proof -
  have w: "wait_for_serial (Serial_ready ready_setup) 0 = Some 0"
    by (subst wait_for_serial.simps) (simp add: ready_setup_def)
  have c: "lowLevelSanityCheck ready_setup = 0" "\<not> display_begin ready_setup"
    by (simp_all add: ready_setup_def)
  have p: "printf (''\<newline>'' @ D_STR_IRRECVDUMP_STARTUP sample_lib @ ''\<newline>'') [Arg_int (ucast kRecvPin)] =
      ''\<newline>IRrecvDump is now running and waiting for IR input on Pin 14\<newline>''"
    by (simp add: sample_lib_def kRecvPin_def printf_def pad_left_def is_digit_def
        dec_int_def dec_nat.simps hexdigit_def)
  have l: "serial_log reset_state = []" "display_log reset_state = []"
    by (simp_all add: reset_state_def)
  from display_begin_failure_halts [OF w c(1), of sample_lib reset_state] c(2)
  obtain t where "setup_routine sample_lib ready_setup reset_state = Hung t"
    and "serial_log t = serial_log reset_state @
            [printf (''\<newline>'' @ D_STR_IRRECVDUMP_STARTUP sample_lib @ ''\<newline>'') [Arg_int (ucast kRecvPin)],
             ''SSD1306 allocation FAILED'' @ crlf]"
    and "display_log t = display_log reset_state @ [Begin SCREEN_ADDRESS]"
    and "\<forall>inps. firmware sample_lib ready_setup inps reset_state = Hung t"
    by blast
  then have "firmware sample_lib ready_setup [nec_pass, idle_pass] reset_state = Hung t \<and>
        serial_log t =
          [''\<newline>IRrecvDump is now running and waiting for IR input on Pin 14\<newline>'',
           ''SSD1306 allocation FAILED'' @ crlf] \<and>
        display_log t = [Begin 0x3C]"
    unfolding p l by (simp add: SCREEN_ADDRESS_def)
  with w c show ?thesis by blast
qed

subsection \<open>What a pass changes\<close>

text \<open>
  Claim C7. A pass of \<^verbatim>\<open>loop\<close> changes the state in these places only:
  \<^verbatim>\<open>g_currentMillis\<close>, \<^verbatim>\<open>g_DecodeResults\<close>, \<^verbatim>\<open>g_previousDisplayMillis\<close> and the
  logs of the calls made to the three devices, which only grow; every further component
  of the state (the extension of the record) is unchanged. \<^verbatim>\<open>g_previousDisplayMillis\<close>
  is unchanged in a pass that does not handle a result (no decode, or a repeat), and
  when it does change, the pass handled a result and the new value is the clock read at
  the end of \<^verbatim>\<open>displayResults\<close>. \<^verbatim>\<open>displayResults\<close> itself changes nothing but
  \<^verbatim>\<open>g_previousDisplayMillis\<close> and the display log.
\<close>

theorem loop_frame:
  "loop lib inp s =
     s\<lparr>g_currentMillis := millis_loop inp,
       g_DecodeResults := decode_stored inp,
       g_previousDisplayMillis :=
         (if decode_returned inp \<and> \<not> repeat (decode_stored inp)
          then millis_display inp else g_previousDisplayMillis s),
       irrecv_log := irrecv_log s @ [Decode],
       display_log := display_log s @ display_drawn lib inp s,
       serial_log := serial_log s @ serial_written lib inp s\<rparr> \<and>
   (\<not> (decode_returned inp \<and> \<not> repeat (decode_stored inp)) \<longrightarrow>
      g_previousDisplayMillis (loop lib inp s) = g_previousDisplayMillis s) \<and>
   (g_previousDisplayMillis (loop lib inp s) \<noteq> g_previousDisplayMillis s \<longrightarrow>
      decode_returned inp \<and> \<not> repeat (decode_stored inp) \<and>
      g_previousDisplayMillis (loop lib inp s) = millis_display inp) \<and>
   firmware_state.more (loop lib inp s) = firmware_state.more s \<and>
   g_previousDisplayMillis (displayResults r inp t) = millis_display inp \<and>
   g_currentMillis (displayResults r inp t) = g_currentMillis t \<and>
   g_DecodeResults (displayResults r inp t) = g_DecodeResults t \<and>
   serial_log (displayResults r inp t) = serial_log t \<and>
   irrecv_log (displayResults r inp t) = irrecv_log t \<and>
   firmware_state.more (displayResults r inp t) = firmware_state.more t"
proof -
  have f: "loop lib inp s =
     s\<lparr>g_currentMillis := millis_loop inp,
       g_DecodeResults := decode_stored inp,
       g_previousDisplayMillis :=
         (if decode_returned inp \<and> \<not> repeat (decode_stored inp)
          then millis_display inp else g_previousDisplayMillis s),
       irrecv_log := irrecv_log s @ [Decode],
       display_log := display_log s @ display_drawn lib inp s,
       serial_log := serial_log s @ serial_written lib inp s\<rparr>"
  proof (cases "decode_returned inp \<and> \<not> repeat (decode_stored inp)")
    case True
    then have h: "decode_returned inp" "\<not> repeat (decode_stored inp)" by simp_all
    show ?thesis
      by (simp only: display_drawn_handled [OF h] serial_written_handled [OF h])
        (subst loop_handled [OF h], simp add: h)
  next
    case False
    show ?thesis
      by (simp only: display_drawn_idle [OF False] serial_written_idle [OF False])
        (subst loop_idle [OF False], simp add: False)
  qed
  have a: "g_previousDisplayMillis (loop lib inp s) =
      (if decode_returned inp \<and> \<not> repeat (decode_stored inp)
       then millis_display inp else g_previousDisplayMillis s)"
    by (subst f) simp
  have m: "firmware_state.more (loop lib inp s) = firmware_state.more s"
    by (subst f) simp
  have d: "g_previousDisplayMillis (displayResults r inp t) = millis_display inp"
    "g_currentMillis (displayResults r inp t) = g_currentMillis t"
    "g_DecodeResults (displayResults r inp t) = g_DecodeResults t"
    "serial_log (displayResults r inp t) = serial_log t"
    "irrecv_log (displayResults r inp t) = irrecv_log t"
    "firmware_state.more (displayResults r inp t) = firmware_state.more t"
    by (simp_all add: displayResults_eq)
  from a have b: "\<not> (decode_returned inp \<and> \<not> repeat (decode_stored inp)) \<longrightarrow>
      g_previousDisplayMillis (loop lib inp s) = g_previousDisplayMillis s"
    by simp
  from a have c: "g_previousDisplayMillis (loop lib inp s) \<noteq> g_previousDisplayMillis s \<longrightarrow>
      decode_returned inp \<and> \<not> repeat (decode_stored inp) \<and>
      g_previousDisplayMillis (loop lib inp s) = millis_display inp"
    by (simp split: if_splits)
  show ?thesis
    by (intro conjI f b c m d)
qed

theorem loop_frame_witness:
  "\<not> (decode_returned idle_pass \<and> \<not> repeat (decode_stored idle_pass)) \<and>
   \<not> (decode_returned repeat_pass \<and> \<not> repeat (decode_stored repeat_pass)) \<and>
   g_previousDisplayMillis (loop sample_lib idle_pass (reset_state\<lparr>g_previousDisplayMillis := 77\<rparr>)) = 77 \<and>
   g_previousDisplayMillis (loop sample_lib repeat_pass (reset_state\<lparr>g_previousDisplayMillis := 77\<rparr>)) = 77 \<and>
   g_previousDisplayMillis (loop sample_lib nec_pass (reset_state\<lparr>g_previousDisplayMillis := 77\<rparr>)) = 5030"
proof -
  let ?s = "reset_state\<lparr>g_previousDisplayMillis := 77\<rparr>"
  have i: "\<not> (decode_returned idle_pass \<and> \<not> repeat (decode_stored idle_pass))"
    by (simp add: idle_pass_def)
  have r: "\<not> (decode_returned repeat_pass \<and> \<not> repeat (decode_stored repeat_pass))"
    by (simp add: repeat_pass_def)
  have h: "decode_returned nec_pass \<and> \<not> repeat (decode_stored nec_pass)"
    and m: "millis_display nec_pass = 5030"
    by (simp_all add: nec_pass_def nec_results_def)
  have g: "g_previousDisplayMillis ?s = 77" by simp
  from loop_frame [of sample_lib idle_pass ?s zero_results reset_state] i
  have "g_previousDisplayMillis (loop sample_lib idle_pass ?s) = g_previousDisplayMillis ?s"
    by blast
  with g have 1: "g_previousDisplayMillis (loop sample_lib idle_pass ?s) = 77" by (simp only:)
  from loop_frame [of sample_lib repeat_pass ?s zero_results reset_state] r
  have "g_previousDisplayMillis (loop sample_lib repeat_pass ?s) = g_previousDisplayMillis ?s"
    by blast
  with g have 2: "g_previousDisplayMillis (loop sample_lib repeat_pass ?s) = 77" by (simp only:)
  have "g_previousDisplayMillis (loop sample_lib nec_pass ?s) \<noteq> g_previousDisplayMillis ?s"
    by (subst loop_frame [of sample_lib nec_pass ?s zero_results reset_state, THEN conjunct1])
      (simp add: h m)
  with loop_frame [of sample_lib nec_pass ?s zero_results reset_state]
  have "g_previousDisplayMillis (loop sample_lib nec_pass ?s) = millis_display nec_pass"
    by blast
  with m have 3: "g_previousDisplayMillis (loop sample_lib nec_pass ?s) = 5030" by (simp only:)
  from i r 1 2 3 show ?thesis by blast
qed

subsection \<open>Wrap-around of the clock\<close>

lemma threshold_modular:
  "(2000 < (a - b :: 32 word)) = (2000 < (uint a - uint b) mod 2 ^ 32)"
proof -
  have "uint (a - b) = (uint a - uint b) mod 2 ^ 32"
    using uint_word_ariths(2) [of a b] by simp
  then show ?thesis by (simp add: word_less_def)
qed

text \<open>
  Claim C10. Both decisions compare the same quantity with 2000: the difference of the
  two clock values taken modulo \<open>2 ^ 32\<close>, which is never negative. The screen is
  cleared in a pass that handles a result, and the indicator is drawn in a pass that
  does not, exactly when that modular difference is strictly greater than 2000, also
  when the clock has wrapped around since the last display update.
\<close>

theorem elapsed_is_modular_difference:
  "(decode_returned inp \<and> \<not> repeat (decode_stored inp) \<longrightarrow>
      (FillScreen SSD1306_BLACK \<in> set (display_drawn lib inp s)) =
      (2000 < (uint (millis_loop inp) - uint (g_previousDisplayMillis s)) mod 2 ^ 32)) \<and>
   (\<not> (decode_returned inp \<and> \<not> repeat (decode_stored inp)) \<longrightarrow>
      (display_drawn lib inp s \<noteq> []) =
      (2000 < (uint (millis_loop inp) - uint (g_previousDisplayMillis s)) mod 2 ^ 32)) \<and>
   uint (g_currentMillis (loop lib inp s) - g_previousDisplayMillis s) =
      (uint (millis_loop inp) - uint (g_previousDisplayMillis s)) mod 2 ^ 32 \<and>
   0 \<le> (uint (millis_loop inp) - uint (g_previousDisplayMillis s)) mod 2 ^ 32 \<and>
   (uint (millis_loop inp) - uint (g_previousDisplayMillis s)) mod 2 ^ 32 < 2 ^ 32"
proof (intro conjI impI)
  assume "decode_returned inp \<and> \<not> repeat (decode_stored inp)"
  then have h: "decode_returned inp" "\<not> repeat (decode_stored inp)" by simp_all
  show "(FillScreen SSD1306_BLACK \<in> set (display_drawn lib inp s)) =
      (2000 < (uint (millis_loop inp) - uint (g_previousDisplayMillis s)) mod 2 ^ 32)"
    by (simp only: threshold_modular [symmetric]) (simp add: display_drawn_handled [OF h])
next
  assume i: "\<not> (decode_returned inp \<and> \<not> repeat (decode_stored inp))"
  show "(display_drawn lib inp s \<noteq> []) =
      (2000 < (uint (millis_loop inp) - uint (g_previousDisplayMillis s)) mod 2 ^ 32)"
    by (simp only: threshold_modular [symmetric]) (simp add: display_drawn_idle [OF i])
next
  have c: "g_currentMillis (loop lib inp s) = millis_loop inp"
  proof (cases "decode_returned inp \<and> \<not> repeat (decode_stored inp)")
    case True
    then have h: "decode_returned inp" "\<not> repeat (decode_stored inp)" by simp_all
    show ?thesis by (subst loop_handled [OF h]) simp
  next
    case False
    show ?thesis by (subst loop_idle [OF False]) simp
  qed
  show "uint (g_currentMillis (loop lib inp s) - g_previousDisplayMillis s) =
      (uint (millis_loop inp) - uint (g_previousDisplayMillis s)) mod 2 ^ 32"
    unfolding c using uint_word_ariths(2) [of "millis_loop inp" "g_previousDisplayMillis s"] by simp
next
  show "0 \<le> (uint (millis_loop inp) - uint (g_previousDisplayMillis s)) mod 2 ^ 32"
    by simp
next
  show "(uint (millis_loop inp) - uint (g_previousDisplayMillis s)) mod 2 ^ 32 < 2 ^ 32"
    by simp
qed

theorem elapsed_is_modular_difference_witness:
  "\<not> (decode_returned (idle_pass\<lparr>millis_loop := 0x800\<rparr>) \<and>
      \<not> repeat (decode_stored (idle_pass\<lparr>millis_loop := 0x800\<rparr>))) \<and>
   (uint (0x800 :: 32 word) - uint (0xFFFFFF00 :: 32 word)) mod 2 ^ 32 = 2304 \<and>
   display_drawn sample_lib (idle_pass\<lparr>millis_loop := 0x800\<rparr>)
     (reset_state\<lparr>g_previousDisplayMillis := 0xFFFFFF00\<rparr>) \<noteq> [] \<and>
   FillScreen SSD1306_BLACK \<in> set (display_drawn sample_lib (nec_pass\<lparr>millis_loop := 0x800\<rparr>)
     (reset_state\<lparr>g_previousDisplayMillis := 0xFFFFFF00\<rparr>))"
proof -
  let ?i = "idle_pass\<lparr>millis_loop := 0x800\<rparr>" and ?n = "nec_pass\<lparr>millis_loop := 0x800\<rparr>"
  let ?s = "reset_state\<lparr>g_previousDisplayMillis := 0xFFFFFF00\<rparr>"
  have i: "\<not> (decode_returned ?i \<and> \<not> repeat (decode_stored ?i))"
    by (simp add: idle_pass_def)
  have h: "decode_returned ?n \<and> \<not> repeat (decode_stored ?n)"
    by (simp add: nec_pass_def nec_results_def)
  have e: "(uint (0x800 :: 32 word) - uint (0xFFFFFF00 :: 32 word)) mod 2 ^ 32 = 2304"
    by simp
  from elapsed_is_modular_difference [of ?i sample_lib ?s] i e
  have 1: "display_drawn sample_lib ?i ?s \<noteq> []" by simp
  from elapsed_is_modular_difference [of ?n sample_lib ?s] h e
  have 2: "FillScreen SSD1306_BLACK \<in> set (display_drawn sample_lib ?n ?s)" by simp
  from i e 1 2 show ?thesis by blast
qed

end
